theory Spec2Isabelle
  imports Main "HOL-Library.Word"
begin

unbundle bit_operations_syntax

section \<open>NVEC embedded-controller interface (drivers/mfd/nvec.c)\<close>

text \<open>
  A shallow embedding of the slave-mode SMBus driver \<^verbatim>\<open>drivers/mfd/nvec.c\<close>: the tag
  pool, the event pool, the interrupt state machine \<^verbatim>\<open>i2c_interrupt\<close>, and the
  request path \<^verbatim>\<open>nvec_msg_xfer\<close> / \<^verbatim>\<open>nvec_cmd_xfer\<close>.

  The target is a 32-bit ARM core: \<^verbatim>\<open>unsigned int\<close>, \<^verbatim>\<open>unsigned long\<close> and
  \<^verbatim>\<open>size_t\<close> are 32 bits wide.  Register words and bitmaps are \<open>32 word\<close>, bytes are
  \<open>8 word\<close>.  Values of type \<^verbatim>\<open>int\<close> are modelled as \<open>int\<close>; where the code converts
  between \<^verbatim>\<open>int\<close> and an unsigned type the conversion is written out.
\<close>

type_synonym u8 = "8 word"
type_synonym u32 = "32 word"

subsection \<open>Constants of the source file\<close>

definition NVEC_COMMAND_0_PACKET_TYPE_MASK :: u8 where "NVEC_COMMAND_0_PACKET_TYPE_MASK = 0x80"
definition NVEC_COMMAND_0_PACKET_TYPE_EVENT :: u8 where "NVEC_COMMAND_0_PACKET_TYPE_EVENT = 0x80"
definition NVEC_COMMAND_0_EVENT_LENGTH_MASK :: u8 where "NVEC_COMMAND_0_EVENT_LENGTH_MASK = 0x60"
definition NVEC_COMMAND_0_EVENT_LENGTH_FIXED_2BYTE :: u8 where "NVEC_COMMAND_0_EVENT_LENGTH_FIXED_2BYTE = 0x00"
definition NVEC_COMMAND_0_EVENT_LENGTH_FIXED_3BYTE :: u8 where "NVEC_COMMAND_0_EVENT_LENGTH_FIXED_3BYTE = 0x20"
definition NVEC_COMMAND_0_EVENT_LENGTH_VARIABLE :: u8 where "NVEC_COMMAND_0_EVENT_LENGTH_VARIABLE = 0x40"
definition NVEC_COMMAND_0_ERROR_FLAG_MASK :: u8 where "NVEC_COMMAND_0_ERROR_FLAG_MASK = 0x10"
definition NVEC_COMMAND_0_EVENT_TYPE_MASK :: u8 where "NVEC_COMMAND_0_EVENT_TYPE_MASK = 0x0F"

definition NVEC_COMMAND_0_CMD_TAG_MASK :: int where "NVEC_COMMAND_0_CMD_TAG_MASK = 0x70"
definition NVEC_COMMAND_0_CMD_TAG_SHIFT :: nat where "NVEC_COMMAND_0_CMD_TAG_SHIFT = 4"
definition NVEC_COMMAND_0_CMD_TYPE_MASK :: int where "NVEC_COMMAND_0_CMD_TYPE_MASK = 0x0F"

definition END_TRANS :: u32 where "END_TRANS = 0x10"
definition I2C_SL_IRQ :: u32 where "I2C_SL_IRQ = 0x08"
definition RCVD :: u32 where "RCVD = 0x04"
definition RNW :: u32 where "RNW = 0x02"

definition NVEC_TIMEOUT :: nat where "NVEC_TIMEOUT = 20"

text \<open>The errno values of the kernel (\<^verbatim>\<open>asm-generic/errno-base.h\<close>, \<^verbatim>\<open>errno.h\<close>).\<close>

definition EIO :: int where "EIO = 5"
definition ETIMEDOUT :: int where "ETIMEDOUT = 110"

text \<open>
  The header \<^verbatim>\<open>linux/mfd/nvec.h\<close> is not part of the sources at hand.  What the driver
  takes from it is a parameter of the model: the maximal payload size, the capacity of
  the payload array of an event record (\<^verbatim>\<open>ARRAY_SIZE(rxev->data)\<close>), the command and
  sub-command codes of the no-operation control request, and the status code of success.
\<close>

record nvec_hdr =
  NVEC_MAX_MSG_SZ :: nat
  EV_DATA_SZ :: nat
  NVEC_CMD_CONTROL :: u8
  NVEC_CMD_CONTROL_NOOPERATION :: u8
  NVEC_STATUS_SUCCESS :: u8

subsection \<open>Conversions between C integer types\<close>

definition to_u32 :: "int \<Rightarrow> int" where
  \<comment> \<open>the value of an \<^verbatim>\<open>int\<close> converted to a 32-bit unsigned type\<close>
  "to_u32 x = x mod 2 ^ 32"

definition to_s32 :: "int \<Rightarrow> int" where
  \<comment> \<open>the value of a 32-bit unsigned quantity converted to \<^verbatim>\<open>int\<close>\<close>
  "to_s32 x = (x + 2 ^ 31) mod 2 ^ 32 - 2 ^ 31"

subsection \<open>Data model\<close>

text \<open>
  \<^verbatim>\<open>struct nvec_cmd\<close>.  The two unions are kept as their \<^verbatim>\<open>raw\<close> byte arrays, of
  \<^verbatim>\<open>NVEC_MAX_MSG_SZ+3\<close> and \<^verbatim>\<open>NVEC_MAX_MSG_SZ+4\<close> bytes; an array is a function from
  the index, and every access the code does not guard is checked against the declared
  size where it is made.  The named members are positions of the raw arrays:
  \<^verbatim>\<open>tx.size, tx.cmd, tx.subcmd, tx.data\<close> at 0, 1, 2, 3.. and
  \<^verbatim>\<open>rx.cmd, rx.size, rx.subcmd, rx.status, rx.data\<close> at 0, 1, 2, 3, 4...
  The list node is represented by membership of a pointer to the record in the queues.
\<close>

record nvec_cmd =
  msg_done :: bool
  tx_raw :: "nat \<Rightarrow> u8"
  rx_raw :: "nat \<Rightarrow> u8"

abbreviation tx_size_f :: "nvec_cmd \<Rightarrow> u8" where "tx_size_f m \<equiv> tx_raw m 0"
abbreviation tx_cmd_f :: "nvec_cmd \<Rightarrow> u8" where "tx_cmd_f m \<equiv> tx_raw m 1"
abbreviation tx_subcmd_f :: "nvec_cmd \<Rightarrow> u8" where "tx_subcmd_f m \<equiv> tx_raw m 2"
abbreviation rx_cmd_f :: "nvec_cmd \<Rightarrow> u8" where "rx_cmd_f m \<equiv> rx_raw m 0"
abbreviation rx_size_f :: "nvec_cmd \<Rightarrow> u8" where "rx_size_f m \<equiv> rx_raw m 1"
abbreviation rx_subcmd_f :: "nvec_cmd \<Rightarrow> u8" where "rx_subcmd_f m \<equiv> rx_raw m 2"
abbreviation rx_status_f :: "nvec_cmd \<Rightarrow> u8" where "rx_status_f m \<equiv> rx_raw m 3"

definition zero_cmd :: nvec_cmd where
  "zero_cmd = \<lparr>msg_done = False, tx_raw = (\<lambda>_. 0), rx_raw = (\<lambda>_. 0)\<rparr>"

text \<open>
  \<^verbatim>\<open>struct nvec_event\<close> is declared in the missing header; the driver uses its members
  \<^verbatim>\<open>node, id, ev, status, size, data\<close>.  The member \<^verbatim>\<open>size\<close> holds the value the
  code assigns to it (the declared width of the member is not known).
\<close>

record nvec_event =
  ev_id :: int
  ev :: u8
  ev_status :: u8
  ev_size :: int
  ev_data :: "nat \<Rightarrow> u8"

definition zero_event :: nvec_event where
  "zero_event = \<lparr>ev_id = 0, ev = 0, ev_status = 0, ev_size = 0, ev_data = (\<lambda>_. 0)\<rparr>"

text \<open>
  A pointer to a \<^verbatim>\<open>struct nvec_cmd\<close> is either the address of the scratch message
  inside the chip structure or the address of a caller's message.
\<close>

datatype msgref = Scratch | Msg nat

text \<open>
  \<^verbatim>\<open>struct nvec_chip\<close>.  \<open>msgs\<close> is the memory holding the callers' messages (a
  message lives on the stack of \<^verbatim>\<open>nvec_cmd_xfer\<close>), \<open>gpio_value\<close> the level last written
  to the attention line, \<open>ev_work_scheduled\<close> whether \<^verbatim>\<open>schedule_work\<close> has been called.
\<close>

record nvec_chip =
  i2c_addr :: u32
  i2c_enabled :: bool
  cmd_tagmap :: "nat \<Rightarrow> u32"
  cmd_tosend :: "msgref list"
  cmd_tosendcount :: int
  cmd_torcv :: "msgref list"
  cmd_scratch :: nvec_cmd
  tx :: "msgref option"
  tx_pos :: int
  tx_size :: int
  rx_pos :: int
  ev_toprocess :: "nat list"
  ev_pool :: "nat \<Rightarrow> nvec_event"
  ev_allocd :: u32
  ev_work_scheduled :: bool
  smbus_state :: int
  gpio_value :: int
  msgs :: "nat \<Rightarrow> nvec_cmd option"

text \<open>The chip structure after \<^verbatim>\<open>kzalloc\<close> and the initialisation of \<^verbatim>\<open>tegra_nvec_probe\<close>.\<close>

definition nvec_init :: "u32 \<Rightarrow> nvec_chip" where
  "nvec_init addr =
     \<lparr>i2c_addr = addr, i2c_enabled = True, cmd_tagmap = (\<lambda>_. 0),
      cmd_tosend = [], cmd_tosendcount = 0, cmd_torcv = [],
      cmd_scratch = zero_cmd, tx = None, tx_pos = 0, tx_size = 0, rx_pos = 0,
      ev_toprocess = [], ev_pool = (\<lambda>_. zero_event), ev_allocd = 0,
      ev_work_scheduled = False, smbus_state = 0, gpio_value = 1, msgs = (\<lambda>_. None)\<rparr>"

text \<open>
  Ways in which a call does not return normally: the caller sleeps in \<^verbatim>\<open>wait_event\<close>
  (\<open>Blocked\<close>), or the code leaves defined behaviour: \<^verbatim>\<open>list_first_entry\<close> of an empty
  list, a dereference of a message that no longer exists, a read or a write past the end
  of an array.
\<close>

datatype trap = Blocked | EmptyListEntry | DanglingMsg | SrcOverrun | DestOverrun

subsection \<open>Kernel primitives\<close>

definition test_and_set_bit :: "nat \<Rightarrow> u32 \<Rightarrow> bool \<times> u32" where
  "test_and_set_bit i w = (bit w i, set_bit i w)"

definition clear_bit :: "nat \<Rightarrow> u32 \<Rightarrow> u32" where
  "clear_bit i w = unset_bit i w"

text \<open>\<^verbatim>\<open>list_del_init(&m->node)\<close>: the node leaves the list it is on, if any.\<close>

definition list_del_init :: "msgref \<Rightarrow> nvec_chip \<Rightarrow> nvec_chip" where
  "list_del_init m nvec =
     nvec\<lparr>cmd_tosend := remove1 m (cmd_tosend nvec), cmd_torcv := remove1 m (cmd_torcv nvec)\<rparr>"

definition gpio_set_value :: "int \<Rightarrow> nvec_chip \<Rightarrow> nvec_chip" where
  "gpio_set_value v nvec = nvec\<lparr>gpio_value := v\<rparr>"

text \<open>
  \<^verbatim>\<open>memcpy(dst, src + pos, n)\<close> between two arrays of declared sizes \<open>dsz\<close> and \<open>ssz\<close>.
\<close>

definition memcpy :: "(nat \<Rightarrow> u8) \<Rightarrow> nat \<Rightarrow> (nat \<Rightarrow> u8) \<Rightarrow> nat \<Rightarrow> nat \<Rightarrow> nat \<Rightarrow> trap + (nat \<Rightarrow> u8)" where
  "memcpy dst dsz src ssz pos n =
     (if n > dsz then Inl DestOverrun
      else if pos + n > ssz then Inl SrcOverrun
      else Inr (\<lambda>k. if k < n then src (pos + k) else dst k))"

subsection \<open>Tag pool\<close>

text \<open>
  The loop \<^verbatim>\<open>for (i = 0; i < 8; i++) if (!test_and_set_bit(i, &map)) ...\<close>, shared by the
  tag pool and the event pool: the first index of the list whose bit was clear, and the
  bitmap with that bit set.
\<close>

fun find_free_bit :: "nat list \<Rightarrow> u32 \<Rightarrow> (nat \<times> u32) option" where
  "find_free_bit [] w = None"
| "find_free_bit (i # is) w =
     (case test_and_set_bit i w of
        (old, w') \<Rightarrow> if \<not> old then Some (i, w') else find_free_bit is w')"

text \<open>
  \<^verbatim>\<open>nvec_alloc_tag\<close>.  When no bit is free the caller sleeps in \<^verbatim>\<open>wait_event\<close> until
  another context frees a tag; within one call nothing else runs, so the call does not
  return: the result is \<open>None\<close>.
\<close>

definition nvec_alloc_tag :: "nvec_chip \<Rightarrow> int \<Rightarrow> (int \<times> nvec_chip) option" where
  "nvec_alloc_tag nvec cmd0 =
     (let cmd = cmd0 AND NVEC_COMMAND_0_CMD_TYPE_MASK in
      case find_free_bit [0..<8] (cmd_tagmap nvec (nat cmd)) of
        Some (i, w') \<Rightarrow>
          Some (push_bit NVEC_COMMAND_0_CMD_TAG_SHIFT (int i) OR (cmd AND NOT NVEC_COMMAND_0_CMD_TAG_MASK),
                nvec\<lparr>cmd_tagmap := (cmd_tagmap nvec)(nat cmd := w')\<rparr>)
      | None \<Rightarrow> None)"

definition nvec_free_tag :: "nvec_chip \<Rightarrow> int \<Rightarrow> nvec_chip" where
  "nvec_free_tag nvec cmd_tag =
     (let cmd = cmd_tag AND NVEC_COMMAND_0_CMD_TYPE_MASK;
          tag = drop_bit NVEC_COMMAND_0_CMD_TAG_SHIFT (cmd_tag AND NVEC_COMMAND_0_CMD_TAG_MASK)
      in nvec\<lparr>cmd_tagmap := (cmd_tagmap nvec)(nat cmd := clear_bit (nat tag) (cmd_tagmap nvec (nat cmd)))\<rparr>)"

subsection \<open>Event pool\<close>

definition nvec_alloc_ev_msg :: "nvec_chip \<Rightarrow> (nat \<times> nvec_chip) option" where
  "nvec_alloc_ev_msg nvec =
     (case find_free_bit [0..<8] (ev_allocd nvec) of
        Some (i, w') \<Rightarrow>
          Some (i, nvec\<lparr>ev_allocd := w',
                        ev_pool := (ev_pool nvec)(i := (ev_pool nvec i)\<lparr>ev_id := int i\<rparr>)\<rparr>)
      | None \<Rightarrow> None)"

definition nvec_free_ev_msg :: "nvec_chip \<Rightarrow> nat \<Rightarrow> nvec_chip" where
  "nvec_free_ev_msg nvec e = nvec\<lparr>ev_allocd := clear_bit (nat (ev_id (ev_pool nvec e))) (ev_allocd nvec)\<rparr>"

subsection \<open>The interrupt state machine\<close>

definition deref :: "nvec_chip \<Rightarrow> msgref \<Rightarrow> trap + nvec_cmd" where
  "deref nvec r =
     (case r of
        Scratch \<Rightarrow> Inr (cmd_scratch nvec)
      | Msg a \<Rightarrow> (case msgs nvec a of None \<Rightarrow> Inl DanglingMsg | Some m \<Rightarrow> Inr m))"

text \<open>
  States 2 and 3: \<^verbatim>\<open>if (nvec->tx != NULL && nvec->tx_pos < nvec->tx_size)
  to_send = nvec->tx->tx.raw[nvec->tx_pos++]; else nvec->smbus_state = 0;\<close>
  The result carries \<^verbatim>\<open>to_send\<close>, which is \<^verbatim>\<open>0xff\<close> unless assigned.
\<close>

definition send_next_byte :: "nvec_hdr \<Rightarrow> nvec_chip \<Rightarrow> trap + (u8 \<times> nvec_chip)" where
  "send_next_byte h nvec =
     (case tx nvec of
        None \<Rightarrow> Inr (0xff, nvec\<lparr>smbus_state := 0\<rparr>)
      | Some r \<Rightarrow>
          if tx_pos nvec < tx_size nvec then
            (case deref nvec r of
               Inl e \<Rightarrow> Inl e
             | Inr m \<Rightarrow>
                 if 0 \<le> tx_pos nvec \<and> tx_pos nvec < int (NVEC_MAX_MSG_SZ h + 3)
                 then Inr (tx_raw m (nat (tx_pos nvec)), nvec\<lparr>tx_pos := tx_pos nvec + 1\<rparr>)
                 else Inl SrcOverrun)
          else Inr (0xff, nvec\<lparr>smbus_state := 0\<rparr>))"

text \<open>
  State 2, block read, lines 582 to 626: the message to transmit.  A current message is
  kept as it is; otherwise the scratch no-op or the first entry of the to-send list is
  taken, depending on the depth counter.
\<close>

definition pick_tx_msg :: "nvec_hdr \<Rightarrow> nvec_chip \<Rightarrow> trap + nvec_chip" where
  "pick_tx_msg h nvec =
     (case tx nvec of
        Some r \<Rightarrow> Inr nvec
      | None \<Rightarrow>
          if cmd_tosendcount nvec = 0 then
            (let sc = cmd_scratch nvec;
                 sc' = sc\<lparr>tx_raw := (tx_raw sc)(0 := 2, 1 := NVEC_CMD_CONTROL h,
                                                  2 := NVEC_CMD_CONTROL_NOOPERATION h)\<rparr>
             in Inr (nvec\<lparr>cmd_scratch := sc', tx := Some Scratch, tx_pos := 0,
                          tx_size := uint (tx_size_f sc') + 1\<rparr>))
          else
            (case cmd_tosend nvec of
               [] \<Rightarrow> Inl EmptyListEntry
             | r # rest \<Rightarrow>
                 (case deref nvec r of
                    Inl t \<Rightarrow> Inl t
                  | Inr m \<Rightarrow> Inr (nvec\<lparr>tx := Some r, tx_pos := 0,
                                        tx_size := uint (tx_size_f m) + 1\<rparr>))))"

definition block_read_start :: "nvec_hdr \<Rightarrow> nvec_chip \<Rightarrow> trap + (u8 \<times> nvec_chip)" where
  "block_read_start h nvec =
     (if rx_cmd_f (cmd_scratch nvec) \<noteq> 0x01 then Inr (0xff, nvec\<lparr>smbus_state := 0\<rparr>)
      else
        (case pick_tx_msg h (nvec\<lparr>smbus_state := 3\<rparr>) of
           Inl e \<Rightarrow> Inl e
         | Inr nvec1 \<Rightarrow>
             (case send_next_byte h nvec1 of
                Inl e \<Rightarrow> Inl e
              | Inr (to_send, nvec2) \<Rightarrow> Inr (to_send, gpio_set_value 1 nvec2))))"

text \<open>State 3 on \<^verbatim>\<open>I2C_SL_IRQ|RNW|END_TRANS\<close>, lines 681 to 733.\<close>

definition block_read_end :: "nvec_chip \<Rightarrow> trap + nvec_chip" where
  "block_read_end nvec =
     (case tx nvec of
        None \<Rightarrow> Inr (nvec\<lparr>smbus_state := 0\<rparr>)
      | Some r \<Rightarrow>
          if tx_pos nvec \<ge> tx_size nvec then
            (if r \<noteq> Scratch then
               (case deref nvec r of
                  Inl t \<Rightarrow> Inl t
                | Inr m \<Rightarrow>
                    (let n1 = list_del_init r nvec;
                         n2 = n1\<lparr>cmd_tosendcount := cmd_tosendcount n1 - 1\<rparr>;
                         n3 = gpio_set_value (if cmd_tosendcount n2 = 0 then 1 else 0) n2;
                         n4 = n3\<lparr>cmd_torcv := cmd_torcv n3 @ [r]\<rparr>
                     in Inr (n4\<lparr>tx := None, smbus_state := 0\<rparr>)))
             else Inr (nvec\<lparr>tx := None, smbus_state := 0\<rparr>))
          else Inr ((gpio_set_value 0 (nvec\<lparr>tx_pos := 0\<rparr>))\<lparr>smbus_state := 0\<rparr>))"

text \<open>State 4 on \<^verbatim>\<open>I2C_SL_IRQ\<close>, lines 748 to 757: one more byte of a write.\<close>

definition store_received :: "nvec_hdr \<Rightarrow> u32 \<Rightarrow> nvec_chip \<Rightarrow> trap + nvec_chip" where
  "store_received h received nvec =
     (let sc = cmd_scratch nvec in
      if to_u32 (rx_pos nvec) \<ge> int (NVEC_MAX_MSG_SZ h + 4) \<or>
         (rx_pos nvec > 2 \<and> rx_pos nvec \<ge> uint (rx_size_f sc) + 2)
      then Inr nvec
      else if rx_pos nvec < 0 then Inl DestOverrun
      else Inr (nvec\<lparr>cmd_scratch := sc\<lparr>rx_raw := (rx_raw sc)(nat (rx_pos nvec) := ucast received)\<rparr>,
                     rx_pos := rx_pos nvec + 1\<rparr>))"

text \<open>
  Lines 794 to 832: the event record \<open>e\<close> of the pool is filled from the scratch message.
\<close>

definition fill_event :: "nvec_hdr \<Rightarrow> nvec_chip \<Rightarrow> nat \<Rightarrow> trap + nvec_chip" where
  "fill_event h nvec e =
     (let raw = rx_raw (cmd_scratch nvec);
          lenclass = raw 0 AND NVEC_COMMAND_0_EVENT_LENGTH_MASK;
          payldPos0 = (if lenclass = NVEC_COMMAND_0_EVENT_LENGTH_FIXED_2BYTE then 1
                       else if lenclass = NVEC_COMMAND_0_EVENT_LENGTH_FIXED_3BYTE then 1
                       else if lenclass = NVEC_COMMAND_0_EVENT_LENGTH_VARIABLE then 2
                       else (1::nat));
          payldLen0 = (if lenclass = NVEC_COMMAND_0_EVENT_LENGTH_FIXED_2BYTE then 1
                       else if lenclass = NVEC_COMMAND_0_EVENT_LENGTH_FIXED_3BYTE then 2
                       else if lenclass = NVEC_COMMAND_0_EVENT_LENGTH_VARIABLE then uint (raw 1)
                       else (0::int));
          err = (raw 0 AND NVEC_COMMAND_0_ERROR_FLAG_MASK \<noteq> 0);
          payldLen1 = (if err then payldLen0 - 1 else payldLen0);
          status = (if err then raw payldPos0 else NVEC_STATUS_SUCCESS h);
          payldPos = (if err then payldPos0 + 1 else payldPos0);
          payldLen = (if to_u32 payldLen1 > int (EV_DATA_SZ h) then to_s32 (int (EV_DATA_SZ h))
                      else payldLen1);
          rxev = ev_pool nvec e
      in case memcpy (ev_data rxev) (EV_DATA_SZ h) raw (NVEC_MAX_MSG_SZ h + 4) payldPos
                (nat (to_u32 payldLen)) of
           Inl t \<Rightarrow> Inl t
         | Inr d \<Rightarrow>
             Inr (nvec\<lparr>ev_pool := (ev_pool nvec)
                          (e := rxev\<lparr>ev := raw 0 AND NVEC_COMMAND_0_EVENT_TYPE_MASK,
                                     ev_status := status, ev_size := payldLen, ev_data := d\<rparr>),
                        ev_toprocess := ev_toprocess nvec @ [e],
                        ev_work_scheduled := True\<rparr>))"

text \<open>\<^verbatim>\<open>list_for_each_entry\<close> over the awaiting-response list, lines 866 to 871.\<close>

fun find_answer :: "nvec_chip \<Rightarrow> u8 \<Rightarrow> msgref list \<Rightarrow> trap + msgref option" where
  "find_answer nvec c [] = Inr None"
| "find_answer nvec c (r # rs) =
     (case deref nvec r of
        Inl t \<Rightarrow> Inl t
      | Inr m \<Rightarrow> if tx_cmd_f m = c then Inr (Some r) else find_answer nvec c rs)"

text \<open>A store through a pointer to a message.\<close>

definition update_msg :: "msgref \<Rightarrow> (nvec_cmd \<Rightarrow> nvec_cmd) \<Rightarrow> nvec_chip \<Rightarrow> nvec_chip" where
  "update_msg r f nvec =
     (case r of
        Scratch \<Rightarrow> nvec\<lparr>cmd_scratch := f (cmd_scratch nvec)\<rparr>
      | Msg a \<Rightarrow> nvec\<lparr>msgs := (msgs nvec)(a := map_option f (msgs nvec a))\<rparr>)"

text \<open>\<^verbatim>\<open>complete(&m->done)\<close>.\<close>

definition complete :: "msgref \<Rightarrow> nvec_chip \<Rightarrow> nvec_chip" where
  "complete r nvec = update_msg r (\<lambda>m. m\<lparr>msg_done := True\<rparr>) nvec"

text \<open>Lines 856 to 892: a response is handed to the request that waits for it.\<close>

definition deliver_response :: "nvec_hdr \<Rightarrow> nvec_chip \<Rightarrow> trap + nvec_chip" where
  "deliver_response h nvec =
     (let sc = cmd_scratch nvec in
      case find_answer nvec (rx_cmd_f sc) (cmd_torcv nvec) of
        Inl t \<Rightarrow> Inl t
      | Inr None \<Rightarrow> Inr nvec
      | Inr (Some r) \<Rightarrow>
          (case deref nvec r of
             Inl t \<Rightarrow> Inl t
           | Inr m \<Rightarrow>
               (case memcpy (rx_raw m) (NVEC_MAX_MSG_SZ h + 4) (rx_raw sc) (NVEC_MAX_MSG_SZ h + 4) 0
                       (nat (2 + uint (rx_size_f sc))) of
                  Inl t \<Rightarrow> Inl t
                | Inr d \<Rightarrow>
                    (let n1 = list_del_init r nvec;
                         n2 = update_msg r (\<lambda>m. m\<lparr>rx_raw := d\<rparr>) n1;
                         n3 = nvec_free_tag n2 (uint (rx_cmd_f sc))
                     in Inr (complete r n3)))))"

text \<open>State 4 on \<^verbatim>\<open>I2C_SL_IRQ|END_TRANS\<close>, lines 760 to 896.\<close>

definition block_write_end :: "nvec_hdr \<Rightarrow> nvec_chip \<Rightarrow> trap + nvec_chip" where
  "block_write_end h nvec =
     (if rx_cmd_f (cmd_scratch nvec) AND NVEC_COMMAND_0_PACKET_TYPE_MASK = NVEC_COMMAND_0_PACKET_TYPE_EVENT
      then
        (case nvec_alloc_ev_msg nvec of
           None \<Rightarrow> Inr (nvec\<lparr>smbus_state := 0\<rparr>)
         | Some (e, nvec1) \<Rightarrow>
             (case fill_event h nvec1 e of
                Inl t \<Rightarrow> Inl t
              | Inr nvec2 \<Rightarrow> Inr (nvec2\<lparr>smbus_state := 0\<rparr>)))
      else
        (case deliver_response h nvec of
           Inl t \<Rightarrow> Inl t
         | Inr nvec1 \<Rightarrow> Inr (nvec1\<lparr>smbus_state := 0\<rparr>)))"

text \<open>The \<^verbatim>\<open>switch (nvec->smbus_state)\<close>; the result carries \<^verbatim>\<open>to_send\<close>.\<close>

definition smbus_step :: "nvec_hdr \<Rightarrow> u32 \<Rightarrow> u32 \<Rightarrow> nvec_chip \<Rightarrow> trap + (u8 \<times> nvec_chip)" where
  "smbus_step h status received nvec =
     (if smbus_state nvec = 0 then
        (if status = (I2C_SL_IRQ OR RCVD) then
           (if received \<noteq> i2c_addr nvec then Inr (0xff, nvec)
            else Inr (0xff, nvec\<lparr>smbus_state := 1\<rparr>))
         else Inr (0xff, nvec))
      else if smbus_state nvec = 1 then
        (if status \<noteq> I2C_SL_IRQ then Inr (0xff, nvec\<lparr>smbus_state := 0\<rparr>)
         else
           (let sc = cmd_scratch nvec
            in Inr (0xff, nvec\<lparr>cmd_scratch := sc\<lparr>rx_raw := (rx_raw sc)(0 := ucast received)\<rparr>,
                                smbus_state := 2\<rparr>)))
      else if smbus_state nvec = 2 then
        (if status = (I2C_SL_IRQ OR RNW OR RCVD) then block_read_start h nvec
         else if status = I2C_SL_IRQ then
           (let sc = cmd_scratch nvec
            in Inr (0xff, nvec\<lparr>cmd_scratch := sc\<lparr>rx_raw := (rx_raw sc)(1 := ucast received)\<rparr>,
                                rx_pos := 2, smbus_state := 4\<rparr>))
         else Inr (0xff, nvec\<lparr>smbus_state := 0\<rparr>))
      else if smbus_state nvec = 3 then
        (if status = (I2C_SL_IRQ OR RNW) then send_next_byte h nvec
         else if status = (I2C_SL_IRQ OR RNW OR END_TRANS) then
           (case block_read_end nvec of Inl t \<Rightarrow> Inl t | Inr nvec1 \<Rightarrow> Inr (0xff, nvec1))
         else Inr (0xff, nvec\<lparr>smbus_state := 0\<rparr>))
      else if smbus_state nvec = 4 then
        (if status = I2C_SL_IRQ then
           (case store_received h received nvec of Inl t \<Rightarrow> Inl t | Inr nvec1 \<Rightarrow> Inr (0xff, nvec1))
         else if status = (I2C_SL_IRQ OR END_TRANS) then
           (case block_write_end h nvec of Inl t \<Rightarrow> Inl t | Inr nvec1 \<Rightarrow> Inr (0xff, nvec1))
         else Inr (0xff, nvec\<lparr>smbus_state := 0\<rparr>))
      else Inr (0xff, nvec\<lparr>smbus_state := 0\<rparr>))"

text \<open>
  \<^verbatim>\<open>i2c_interrupt\<close>.  \<open>status\<close> is the value read from the slave status register and
  \<open>rcvd\<close> the value the receive register holds.  The result is the byte written to the
  bus, if one is written, and the new chip state.
\<close>

definition i2c_interrupt :: "nvec_hdr \<Rightarrow> u32 \<times> u32 \<Rightarrow> nvec_chip \<Rightarrow> trap + (u8 option \<times> nvec_chip)" where
  "i2c_interrupt h sr nvec =
     (let status = fst sr; rcvd = snd sr;
          irq_mask = I2C_SL_IRQ OR END_TRANS OR RCVD OR RNW
      in if status AND irq_mask = 0 \<and> \<not> (status AND NOT irq_mask = 0) then Inr (None, nvec)
         else if status AND I2C_SL_IRQ = 0 then Inr (None, nvec)
         else
           (let received = (if status AND (RNW OR END_TRANS) = 0 then rcvd else 0)
            in case smbus_step h status received nvec of
                 Inl t \<Rightarrow> Inl t
               | Inr (to_send, nvec1) \<Rightarrow>
                   Inr (if status AND (RNW OR END_TRANS) = RNW then Some to_send else None, nvec1)))"

text \<open>A sequence of interrupts; the bytes written to the bus are collected in order.\<close>

fun i2c_run :: "nvec_hdr \<Rightarrow> (u32 \<times> u32) list \<Rightarrow> nvec_chip \<Rightarrow> trap + (u8 option list \<times> nvec_chip)" where
  "i2c_run h [] nvec = Inr ([], nvec)"
| "i2c_run h (sr # srs) nvec =
     (case i2c_interrupt h sr nvec of
        Inl t \<Rightarrow> Inl t
      | Inr (out, nvec1) \<Rightarrow>
          (case i2c_run h srs nvec1 of
             Inl t \<Rightarrow> Inl t
           | Inr (outs, nvec2) \<Rightarrow> Inr (out # outs, nvec2)))"

subsection \<open>The request path\<close>

text \<open>
  \<^verbatim>\<open>nvec_msg_xfer\<close> sleeps in \<^verbatim>\<open>wait_for_completion_timeout\<close> and busy-waits in
  \<^verbatim>\<open>mdelay\<close>; meanwhile the interrupt handler and other callers run.  What they do to
  the chip during the \<open>k\<close>-th wait and the \<open>k\<close>-th delay of a call is a parameter of the
  model, the environment.  \<^verbatim>\<open>wait_for_completion_timeout\<close> returns nonzero exactly when
  \<^verbatim>\<open>complete\<close> has been called on the message by the time it returns.
\<close>

datatype pause = Waiting nat | Delaying nat

type_synonym env = "pause \<Rightarrow> nvec_chip \<Rightarrow> trap + nvec_chip"

text \<open>What the request path itself does to the outside while it waits, in order.\<close>

datatype action = GpioSet int | WaitCompletion nat | Mdelay nat

text \<open>
  Lines 947 to 967: \<^verbatim>\<open>while (--tries) { res = wait...; if (res) break; ... }\<close>.
  \<open>tries\<close> is the value of the variable before the test, \<open>k\<close> counts the iterations and
  \<open>res\<close> is the value the variable \<^verbatim>\<open>res\<close> holds.  The variable is not initialised in
  the source; with \<^verbatim>\<open>tries = 10\<close> the body runs before the variable is read, so the
  initial value passed by \<open>nvec_msg_xfer\<close> below is never returned.
\<close>

fun wait_loop :: "env \<Rightarrow> nat \<Rightarrow> nat \<Rightarrow> nat \<Rightarrow> bool \<Rightarrow> nvec_chip \<Rightarrow> trap + (bool \<times> action list \<times> nvec_chip)" where
  "wait_loop env m k tries res nvec =
     (if tries - 1 = 0 then Inr (res, [], nvec)
      else
        (case env (Waiting k) nvec of
           Inl t \<Rightarrow> Inl t
         | Inr nvec1 \<Rightarrow>
             (case msgs nvec1 m of
                None \<Rightarrow> Inl DanglingMsg
              | Some msg \<Rightarrow>
                  if msg_done msg then Inr (True, [WaitCompletion NVEC_TIMEOUT], nvec1)
                  else
                    (case env (Delaying k) (gpio_set_value 1 nvec1) of
                       Inl t \<Rightarrow> Inl t
                     | Inr nvec2 \<Rightarrow>
                         (case wait_loop env m (k + 1) (tries - 1) False (gpio_set_value 0 nvec2) of
                            Inl t \<Rightarrow> Inl t
                          | Inr (r, acts, nvec3) \<Rightarrow>
                              Inr (r, [WaitCompletion NVEC_TIMEOUT, GpioSet 1, Mdelay 10, GpioSet 0] @ acts,
                                   nvec3))))))"

text \<open>Lines 924 to 944: the tag is allocated and the message is queued.\<close>

definition msg_enqueue :: "nvec_chip \<Rightarrow> nat \<Rightarrow> trap + nvec_chip" where
  "msg_enqueue nvec m =
     (case msgs nvec m of
        None \<Rightarrow> Inl DanglingMsg
      | Some msg \<Rightarrow>
          (case nvec_alloc_tag nvec (uint (tx_cmd_f msg)) of
             None \<Rightarrow> Inl Blocked
           | Some (t, nvec1) \<Rightarrow>
               (let msg1 = msg\<lparr>msg_done := False, tx_raw := (tx_raw msg)(1 := word_of_int t)\<rparr>;
                    n2 = nvec1\<lparr>msgs := (msgs nvec1)(m := Some msg1)\<rparr>;
                    n3 = gpio_set_value 0 n2;
                    n4 = n3\<lparr>cmd_tosend := cmd_tosend n3 @ [Msg m]\<rparr>
                in Inr (n4\<lparr>cmd_tosendcount := cmd_tosendcount n4 + 1\<rparr>))))"

text \<open>
  Lines 970 to 1009, the failure path.  \<open>wasinlist\<close> is the result of the loop
  \<^verbatim>\<open>list_for_each_entry(itmsg, &nvec->cmd_torcv, node) if (itmsg == msg) ...\<close>.
\<close>

definition msg_timeout :: "nvec_chip \<Rightarrow> nat \<Rightarrow> trap + (int \<times> nvec_chip)" where
  "msg_timeout nvec m =
     (case msgs nvec m of
        None \<Rightarrow> Inl DanglingMsg
      | Some msg \<Rightarrow>
          (let wasinlist = (Msg m \<in> set (cmd_torcv nvec));
               n1 = list_del_init (Msg m) nvec;
               n2 = (if wasinlist then
                       (let n = n1\<lparr>cmd_tosendcount := cmd_tosendcount n1 - 1\<rparr>
                        in gpio_set_value (if cmd_tosendcount n = 0 then 1 else 0) n)
                     else n1)
           in Inr (- ETIMEDOUT, nvec_free_tag n2 (uint (tx_cmd_f msg)))))"

definition nvec_msg_xfer :: "env \<Rightarrow> nvec_chip \<Rightarrow> nat \<Rightarrow> trap + (int \<times> action list \<times> nvec_chip)" where
  "nvec_msg_xfer env nvec m =
     (case msg_enqueue nvec m of
        Inl t \<Rightarrow> Inl t
      | Inr nvec1 \<Rightarrow>
          (case wait_loop env m 0 10 False nvec1 of
             Inl t \<Rightarrow> Inl t
           | Inr (res, acts, nvec2) \<Rightarrow>
               if \<not> res then
                 (case msg_timeout nvec2 m of
                    Inl t \<Rightarrow> Inl t
                  | Inr (ret, nvec3) \<Rightarrow> Inr (ret, acts, nvec3))
               else Inr (0, acts, nvec2)))"

text \<open>A caller's buffer as an array; its size is the length of the list.\<close>

definition buf_fun :: "u8 list \<Rightarrow> nat \<Rightarrow> u8" where
  "buf_fun xs k = xs ! k"

text \<open>Lines 1155 to 1161: the outgoing raw array of the message.\<close>

definition build_tx :: "nvec_hdr \<Rightarrow> int \<Rightarrow> int \<Rightarrow> u8 list option \<Rightarrow> int \<Rightarrow> trap + (nat \<Rightarrow> u8)" where
  "build_tx h cmd subcmd txpayld txpayldsize =
     (let hd3 = (\<lambda>_. 0)(0 := word_of_int (txpayldsize + 2), 1 := word_of_int cmd,
                        2 := word_of_int subcmd)
      in case txpayld of
           None \<Rightarrow> Inr hd3
         | Some p \<Rightarrow>
             if txpayldsize > 0 then
               (case memcpy (\<lambda>k. hd3 (3 + k)) (NVEC_MAX_MSG_SZ h) (buf_fun p) (length p) 0
                       (nat txpayldsize) of
                  Inl t \<Rightarrow> Inl t
                | Inr d \<Rightarrow> Inr (\<lambda>k. if k < 3 then hd3 k else d (k - 3)))
             else Inr hd3)"

text \<open>
  Lines 1177 to 1211: the answer of a transfer that did not fail.  The result is the
  returned value and the receive buffer.
\<close>

definition copy_answer :: "nvec_hdr \<Rightarrow> nvec_cmd \<Rightarrow> u8 list option \<Rightarrow> int \<Rightarrow> trap + (int \<times> u8 list option)" where
  "copy_answer h msg rxpayld rxpayloadmaxsize =
     (if rx_status_f msg \<noteq> NVEC_STATUS_SUCCESS h then Inr (- EIO, rxpayld)
      else
        (let ret0 = uint (rx_size_f msg) - 2 in
         case rxpayld of
           None \<Rightarrow> Inr (0, None)
         | Some buf \<Rightarrow>
             (let ret1 = (if ret0 > rxpayloadmaxsize then rxpayloadmaxsize else ret0)
              in if ret1 \<noteq> 0 then
                   (case memcpy (buf_fun buf) (length buf) (\<lambda>k. rx_raw msg (4 + k))
                           (NVEC_MAX_MSG_SZ h) 0 (nat (to_u32 ret1)) of
                      Inl t \<Rightarrow> Inl t
                    | Inr d \<Rightarrow> Inr (ret1, Some (map d [0..<length buf])))
                 else Inr (ret1, Some buf))))"

text \<open>
  \<^verbatim>\<open>nvec_cmd_xfer\<close>.  The message lives at address \<open>a\<close> for the duration of the call.
  The caller's buffers are lists of bytes, \<open>None\<close> for a null pointer; the result is the
  returned value, the receive buffer, the actions of the wait loop and the chip.
\<close>

definition nvec_cmd_xfer ::
  "nvec_hdr \<Rightarrow> env \<Rightarrow> nvec_chip \<Rightarrow> nat \<Rightarrow> int \<Rightarrow> int \<Rightarrow> u8 list option \<Rightarrow> int \<Rightarrow> u8 list option \<Rightarrow> int
     \<Rightarrow> trap + (int \<times> u8 list option \<times> action list \<times> nvec_chip)" where
  "nvec_cmd_xfer h env nvec a cmd subcmd txpayld txpayldsize rxpayld rxpayloadmaxsize =
     (if \<not> i2c_enabled nvec then Inr (- EIO, rxpayld, [], nvec)
      else
        (case build_tx h cmd subcmd txpayld txpayldsize of
           Inl t \<Rightarrow> Inl t
         | Inr tx0 \<Rightarrow>
             (case nvec_msg_xfer env (nvec\<lparr>msgs := (msgs nvec)(a := Some (zero_cmd\<lparr>tx_raw := tx0\<rparr>))\<rparr>) a of
                Inl t \<Rightarrow> Inl t
              | Inr (ret, acts, nvec2) \<Rightarrow>
                  (let nvec3 = nvec2\<lparr>msgs := (msgs nvec2)(a := None)\<rparr> in
                   if ret < 0 then Inr (ret, rxpayld, acts, nvec3)
                   else
                     (case msgs nvec2 a of
                        None \<Rightarrow> Inl DanglingMsg
                      | Some msg \<Rightarrow>
                          (case copy_answer h msg rxpayld rxpayloadmaxsize of
                             Inl t \<Rightarrow> Inl t
                           | Inr (r, buf) \<Rightarrow> Inr (r, buf, acts, nvec3)))))))"

text \<open>
  An environment in which only the interrupt handler runs: \<open>bus p\<close> lists the interrupts
  (status word and receive register) that arrive during the pause \<open>p\<close>.
\<close>

definition isr_env :: "nvec_hdr \<Rightarrow> (pause \<Rightarrow> (u32 \<times> u32) list) \<Rightarrow> env" where
  "isr_env h bus p nvec =
     (case i2c_run h (bus p) nvec of Inl t \<Rightarrow> Inl t | Inr (outs, nvec1) \<Rightarrow> Inr nvec1)"

text \<open>The environment in which nothing happens: the EC never polls.\<close>

definition silent :: env where
  "silent p nvec = Inr nvec"

subsection \<open>Auxiliary notions\<close>

text \<open>
  Modelled from the spec: the header \<^verbatim>\<open>linux/mfd/nvec.h\<close> is missing.  An example of its
  values, used where a computation needs concrete numbers: the spec gives 32 as the typical
  maximal payload, \<open>0x04\<close> as the control command and \<open>0x00\<close> as the status of success;
  the event payload capacity is taken equal to the maximal payload and the no-operation
  sub-command is given the value 2.  The general statements below hold for every header.
\<close>

definition hdr32 :: nvec_hdr where
  "hdr32 = \<lparr>NVEC_MAX_MSG_SZ = 32, EV_DATA_SZ = 32, NVEC_CMD_CONTROL = 0x04,
            NVEC_CMD_CONTROL_NOOPERATION = 0x02, NVEC_STATUS_SUCCESS = 0x00\<rparr>"

text \<open>An array holding the given bytes, and zero beyond them.\<close>

definition raw_of :: "u8 list \<Rightarrow> nat \<Rightarrow> u8" where
  "raw_of xs k = (if k < length xs then xs ! k else 0)"

text \<open>The payload of an event record: the first \<^verbatim>\<open>size\<close> bytes of its data array.\<close>

definition ev_payload :: "nvec_event \<Rightarrow> u8 list" where
  "ev_payload e = map (ev_data e) [0..<nat (ev_size e)]"

text \<open>
  The bus traffic of a block write of the bytes \<open>D6 04 07 AA BB CC\<close> to the slave address
  \<open>0x8A\<close>: the address with a start bit, six bytes, and the stop.
\<close>

definition error_event_bus :: "(u32 \<times> u32) list" where
  "error_event_bus = [(0x0C, 0x8A), (0x08, 0xD6), (0x08, 0x04), (0x08, 0x07), (0x08, 0xAA),
                      (0x08, 0xBB), (0x08, 0xCC), (0x18, 0)]"

text \<open>
  A chip that has received an event of the reserved length class with the error flag set.
\<close>

definition reserved_error_event :: nvec_chip where
  "reserved_error_event = (nvec_init 0x8A)\<lparr>cmd_scratch := zero_cmd\<lparr>rx_raw := raw_of [0xF6, 0x00]\<rparr>\<rparr>"

text \<open>A chip in state 4 that has received the six bytes \<open>D6 04 07 AA BB CC\<close>.\<close>

definition error_event_received :: nvec_chip where
  "error_event_received =
     (nvec_init 0x8A)\<lparr>cmd_scratch := zero_cmd\<lparr>rx_raw := raw_of [0xD6, 0x04, 0x07, 0xAA, 0xBB, 0xCC]\<rparr>,
                      rx_pos := 6, smbus_state := 4\<rparr>"

text \<open>
  The completion of the message at address \<open>m\<close> is not signalled during \<open>n\<close> rounds of the
  wait loop that start with round \<open>k\<close> on the chip \<open>nvec\<close>: in each of these rounds the
  environment returns from the wait and from the delay, and at the end of the wait
  \<^verbatim>\<open>complete\<close> has not been called on the message.  The chip follows the run of the
  loop, so the condition speaks of the states of this run only.
\<close>

fun unsignalled :: "env \<Rightarrow> nat \<Rightarrow> nat \<Rightarrow> nat \<Rightarrow> nvec_chip \<Rightarrow> bool" where
  "unsignalled env m k 0 nvec = (msgs nvec m \<noteq> None)"
| "unsignalled env m k (Suc n) nvec =
     (case env (Waiting k) nvec of
        Inl t \<Rightarrow> False
      | Inr nvec1 \<Rightarrow>
          (case msgs nvec1 m of
             None \<Rightarrow> False
           | Some msg \<Rightarrow>
               \<not> msg_done msg \<and>
               (case env (Delaying k) (gpio_set_value 1 nvec1) of
                  Inl t \<Rightarrow> False
                | Inr nvec2 \<Rightarrow> unsignalled env m (Suc k) n (gpio_set_value 0 nvec2))))"

text \<open>The time an action spends in a wait, and in a busy delay, in milliseconds.\<close>

fun wait_ms :: "action \<Rightarrow> nat" where
  "wait_ms (WaitCompletion t) = t"
| "wait_ms (Mdelay t) = 0"
| "wait_ms (GpioSet v) = 0"

fun delay_ms :: "action \<Rightarrow> nat" where
  "delay_ms (WaitCompletion t) = 0"
| "delay_ms (Mdelay t) = t"
| "delay_ms (GpioSet v) = 0"

text \<open>
  One unsuccessful round of the wait loop: the wait of 20 ms, then the attention line
  high, a delay of 10 ms, and the attention line low again.
\<close>

definition pulse :: "action list" where
  "pulse = [WaitCompletion 20, GpioSet 1, Mdelay 10, GpioSet 0]"

text \<open>
  The initial chip with a caller's message at address 7: the firmware-version request,
  \<^verbatim>\<open>size = 2, cmd = 0x04, subcmd = 0x10\<close>.
\<close>

definition fw_request :: nvec_chip where
  "fw_request = (nvec_init 0x8A)\<lparr>msgs := (\<lambda>_. None)(7 := Some (zero_cmd\<lparr>tx_raw := raw_of [2, 0x04, 0x10]\<rparr>))\<rparr>"

text \<open>
  A chip in the middle of a block read of the firmware-version request: two of its three
  bytes have been sent.
\<close>

definition mid_read :: nvec_chip where
  "mid_read = (nvec_init 0x8A)
     \<lparr>cmd_tagmap := (\<lambda>_. 0)(4 := 1), cmd_tosend := [Msg 7], cmd_tosendcount := 1,
      tx := Some (Msg 7), tx_pos := 2, tx_size := 3, smbus_state := 3,
      msgs := (\<lambda>_. None)(7 := Some (zero_cmd\<lparr>tx_raw := raw_of [2, 0x04, 0x10]\<rparr>))\<rparr>"

text \<open>
  Bus traffic of a block read that is abandoned after two bytes by a new start condition,
  followed by a second block read.
\<close>

definition aborted_read_bus :: "(u32 \<times> u32) list" where
  "aborted_read_bus = [(0x0C, 0x8A), (0x08, 0x01), (0x0E, 0), (0x0A, 0), (0x0C, 0x8A),
                       (0x0C, 0x8A), (0x08, 0x01), (0x0E, 0)]"

text \<open>The start of a block read: address, the marker \<open>0x01\<close>, and the turn-around.\<close>

definition poll_bus :: "(u32 \<times> u32) list" where
  "poll_bus = [(0x0C, 0x8A), (0x08, 0x01), (0x0E, 0)]"

text \<open>
  Bus traffic of the firmware-version handshake during the first wait of the caller: the
  EC reads the request (three bytes), then writes the response
  \<open>04 06 10 status 02 00 05 00\<close>.
\<close>

definition fw_bus :: "u8 \<Rightarrow> pause \<Rightarrow> (u32 \<times> u32) list" where
  "fw_bus status p =
     (if p = Waiting 0 then
        [(0x0C, 0x8A), (0x08, 0x01), (0x0E, 0), (0x0A, 0), (0x0A, 0), (0x1A, 0),
         (0x0C, 0x8A), (0x08, 0x04), (0x08, 0x06), (0x08, 0x10), (0x08, ucast status),
         (0x08, 0x02), (0x08, 0x00), (0x08, 0x05), (0x08, 0x00), (0x18, 0)]
      else [])"

text \<open>The outgoing bytes of the firmware-version request before the tag is added.\<close>

definition fw_tx :: "nat \<Rightarrow> u8" where
  "fw_tx = (\<lambda>_. 0)(0 := 0x02, 1 := 0x04, 2 := 0x10)"

text \<open>The initial chip with that request at address 7.\<close>

definition fw_chip :: nvec_chip where
  "fw_chip = (nvec_init 0x8A)\<lparr>msgs := (msgs (nvec_init 0x8A))(7 := Some (zero_cmd\<lparr>tx_raw := fw_tx\<rparr>))\<rparr>"


text \<open>Bus traffic of a complete block read of a packet of three bytes.\<close>

definition read_bus :: "(u32 \<times> u32) list" where
  "read_bus = [(0x0C, 0x8A), (0x08, 0x01), (0x0E, 0), (0x0A, 0), (0x0A, 0), (0x1A, 0)]"

text \<open>
  An environment in which the EC reads the request during the first wait and never
  answers.
\<close>

definition read_then_silent :: env where
  "read_then_silent = isr_env hdr32 (\<lambda>p. if p = Waiting 0 then read_bus else [])"

text \<open>Bus traffic of the response \<open>04 06 10 00 02 00 05 00\<close> to the request tagged \<open>0x04\<close>.\<close>

definition response_bus :: "(u32 \<times> u32) list" where
  "response_bus = [(0x0C, 0x8A), (0x08, 0x04), (0x08, 0x06), (0x08, 0x10), (0x08, 0x00),
                   (0x08, 0x02), (0x08, 0x00), (0x08, 0x05), (0x08, 0x00), (0x18, 0)]"

text \<open>The initial chip with the messages of three callers, all of command code 4.\<close>

definition three_callers :: nvec_chip where
  "three_callers = (nvec_init 0x8A)
     \<lparr>msgs := (\<lambda>_. None)(7 := Some (zero_cmd\<lparr>tx_raw := raw_of [2, 0x04, 0x10]\<rparr>),
                          8 := Some (zero_cmd\<lparr>tx_raw := raw_of [2, 0x04, 0x10]\<rparr>),
                          9 := Some (zero_cmd\<lparr>tx_raw := raw_of [2, 0x04, 0x10]\<rparr>))\<rparr>"

text \<open>
  An environment for the caller of message 7: the EC reads the request during the first
  wait and answers it during the delay of the ninth round; right after the answer a
  second caller queues message 8.
\<close>

definition late_response :: env where
  "late_response p nvec =
     (if p = Waiting 0 then
        (case i2c_run hdr32 read_bus nvec of Inl t \<Rightarrow> Inl t | Inr (outs, nvec1) \<Rightarrow> Inr nvec1)
      else if p = Delaying 8 then
        (case i2c_run hdr32 response_bus nvec of
           Inl t \<Rightarrow> Inl t
         | Inr (outs, nvec1) \<Rightarrow> msg_enqueue nvec1 8)
      else Inr nvec)"

text \<open>The tagged commands of the requests linked on the two queues.\<close>

definition queued_cmds :: "nvec_chip \<Rightarrow> u8 option list" where
  "queued_cmds nvec =
     map (\<lambda>r. case deref nvec r of Inl t \<Rightarrow> None | Inr m \<Rightarrow> Some (tx_cmd_f m))
       (cmd_tosend nvec @ cmd_torcv nvec)"

text \<open>The initial chip with the messages of two callers.\<close>

definition two_callers :: nvec_chip where
  "two_callers = (nvec_init 0x8A)
     \<lparr>msgs := (\<lambda>_. None)(7 := Some (zero_cmd\<lparr>tx_raw := raw_of [2, 0x04, 0x10]\<rparr>),
                          8 := Some (zero_cmd\<lparr>tx_raw := raw_of [3, 0x05, 0x20, 0x99]\<rparr>))\<rparr>"

section \<open>Verification\<close>

subsection \<open>Tag pool\<close>

lemma c15: "(15::int) = mask 4" by (simp add: mask_eq_exp_minus_1)
lemma c112: "(112::int) = push_bit 4 (mask 3)" by (simp add: mask_eq_exp_minus_1)

lemma set_bit_idem: "bit (w::u32) i \<Longrightarrow> set_bit i w = w"
  by (rule bit_eqI) (auto simp: bit_set_bit_iff)

lemma find_free_bit_None: "find_free_bit is w = None \<longleftrightarrow> (\<forall>i\<in>set is. bit w i)"
  by (induction "is" arbitrary: w) (auto simp: test_and_set_bit_def set_bit_idem)

lemma find_free_bit_Some:
  "find_free_bit is w = Some (i, w') \<Longrightarrow> i \<in> set is \<and> \<not> bit w i \<and> w' = set_bit i w"
  by (induction "is" arbitrary: w) (auto simp: test_and_set_bit_def set_bit_idem split: if_splits)

lemma tag_keep_cmd: "((c::int) AND 15) AND NOT 112 = c AND 15"
  unfolding c15 c112 by (rule bit_eqI) (auto simp: bit_simps)

lemma alloc_tag_Some:
  assumes "nvec_alloc_tag nvec cmd = Some (t, nvec')"
  shows "\<exists>i<8. t = push_bit 4 (int i) OR (cmd AND 0x0F) \<and>
           \<not> bit (cmd_tagmap nvec (nat (cmd AND 0x0F))) i \<and>
           cmd_tagmap nvec' = (cmd_tagmap nvec)
             (nat (cmd AND 0x0F) := set_bit i (cmd_tagmap nvec (nat (cmd AND 0x0F))))"
proof -
  from assms obtain i w' where
    f: "find_free_bit [0..<8] (cmd_tagmap nvec (nat (cmd AND 0x0F))) = Some (i, w')"
    and t: "t = push_bit 4 (int i) OR ((cmd AND 0x0F) AND NOT 0x70)"
    and n: "nvec' = nvec\<lparr>cmd_tagmap := (cmd_tagmap nvec)(nat (cmd AND 0x0F) := w')\<rparr>"
    by (auto simp: nvec_alloc_tag_def Let_def NVEC_COMMAND_0_CMD_TYPE_MASK_def
        NVEC_COMMAND_0_CMD_TAG_SHIFT_def NVEC_COMMAND_0_CMD_TAG_MASK_def split: option.splits)
  from find_free_bit_Some[OF f] have "i < 8" "\<not> bit (cmd_tagmap nvec (nat (cmd AND 0x0F))) i"
    "w' = set_bit i (cmd_tagmap nvec (nat (cmd AND 0x0F)))" by auto
  moreover have "t = push_bit 4 (int i) OR (cmd AND 0x0F)"
    unfolding t by (simp only: tag_keep_cmd)
  moreover have "cmd_tagmap nvec' = (cmd_tagmap nvec)(nat (cmd AND 0x0F) := w')"
    using n by simp
  ultimately show ?thesis by blast
qed

lemma alloc_tag_None:
  "nvec_alloc_tag nvec cmd = None \<longleftrightarrow> (\<forall>i<8. bit (cmd_tagmap nvec (nat (cmd AND 0x0F))) i)"
proof -
  have "nvec_alloc_tag nvec cmd = None \<longleftrightarrow>
        find_free_bit [0..<8] (cmd_tagmap nvec (nat (cmd AND 0x0F))) = None"
    by (simp add: nvec_alloc_tag_def Let_def NVEC_COMMAND_0_CMD_TYPE_MASK_def split: option.splits)
  also have "\<dots> \<longleftrightarrow> (\<forall>i\<in>set [0..<8]. bit (cmd_tagmap nvec (nat (cmd AND 0x0F))) i)"
    by (rule find_free_bit_None)
  finally show ?thesis by auto
qed

text \<open>
  Claim C7.  \<^verbatim>\<open>nvec_alloc_tag\<close> by itself does what the claim says (the two lemmas
  above): it does not return exactly when all eight bits are set, and otherwise returns
  \<open>(tag << 4) | (cmd & 0x0F)\<close> for a bit it changed from clear to set.  The consequence
  fails, because a tag can be released twice.  The caller of message 7 is answered during
  the delay of its ninth round: the interrupt handler releases the tag (line 883) and a
  second caller obtains it for message 8; the first caller then leaves the loop with
  \<^verbatim>\<open>res = 0\<close>, takes the failure path and releases the same tag again (line 1006), so
  that a third caller obtains it for message 9.  Messages 8 and 9 are queued together
  with the same tagged command \<open>0x04\<close>.
\<close>

theorem double_release_shares_tag:
  "(case nvec_msg_xfer late_response three_callers 7 of
      Inr (ret, acts, s) \<Rightarrow>
        ret = - ETIMEDOUT \<and>
        (case msgs s 7 of Some m \<Rightarrow> msg_done m \<and> rx_cmd_f m = 0x04 | None \<Rightarrow> False) \<and>
        cmd_tosend s = [Msg 8] \<and> queued_cmds s = [Some 0x04] \<and> cmd_tagmap s 4 = 0 \<and>
        (case msg_enqueue s 9 of
           Inr s' \<Rightarrow>
             cmd_tosend s' = [Msg 8, Msg 9] \<and> cmd_torcv s' = [] \<and>
             queued_cmds s' = [Some 0x04, Some 0x04] \<and> \<not> distinct (queued_cmds s')
         | Inl t \<Rightarrow> False)
    | Inl t \<Rightarrow> False)"
  by code_simp

subsection \<open>Events\<close>

lemma to_u32_to_s32: "to_u32 (to_s32 x) = x mod 2 ^ 32"
  by (simp add: to_u32_def to_s32_def mod_simps)

lemma to_u32_small: "0 \<le> x \<Longrightarrow> x < 2 ^ 32 \<Longrightarrow> to_u32 x = x"
  by (simp add: to_u32_def)

lemma to_u32_neg:
  assumes "- (2 ^ 31) \<le> x" "x < 0"
  shows "to_u32 x \<ge> 2 ^ 31"
proof -
  have "x mod 2 ^ 32 = (x + 2 ^ 32) mod 2 ^ 32" by simp
  also have "\<dots> = x + 2 ^ 32" using assms by (intro mod_pos_pos_trivial) auto
  finally show ?thesis using assms by (simp add: to_u32_def)
qed

lemma to_s32_small: "0 \<le> x \<Longrightarrow> x < 2 ^ 31 \<Longrightarrow> to_s32 x = x"
  by (simp add: to_s32_def)

lemma memcpy_ok:
  "n \<le> dsz \<Longrightarrow> memcpy dst dsz src ssz pos n \<noteq> Inl DestOverrun"
  by (simp add: memcpy_def)

text \<open>
  Claim C9.  When an event record is filled, the copy never writes past the end of the
  record's data array, whatever the scratch message holds.  For an array of fewer than
  \<open>2^31\<close> elements the length stored in the record lies between 0 and the capacity of
  the array, and the bytes of the array from that length on are left as they were.  (The
  comparison with \<^verbatim>\<open>ARRAY_SIZE\<close> is unsigned, so a length of -1 is clamped as well.)
\<close>

theorem fill_event_clamped:
  "fill_event h nvec e \<noteq> Inl DestOverrun \<and>
   (EV_DATA_SZ h < 2 ^ 31 \<longrightarrow>
      (\<forall>s. fill_event h nvec e = Inr s \<longrightarrow>
         0 \<le> ev_size (ev_pool s e) \<and> ev_size (ev_pool s e) \<le> int (EV_DATA_SZ h) \<and>
         (\<forall>k \<ge> nat (ev_size (ev_pool s e)). ev_data (ev_pool s e) k = ev_data (ev_pool nvec e) k)))"
proof -
  define raw where "raw = rx_raw (cmd_scratch nvec)"
  define lenclass where "lenclass = raw 0 AND NVEC_COMMAND_0_EVENT_LENGTH_MASK"
  define payldLen0 where "payldLen0 =
     (if lenclass = NVEC_COMMAND_0_EVENT_LENGTH_FIXED_2BYTE then 1
      else if lenclass = NVEC_COMMAND_0_EVENT_LENGTH_FIXED_3BYTE then 2
      else if lenclass = NVEC_COMMAND_0_EVENT_LENGTH_VARIABLE then uint (raw 1)
      else (0::int))"
  define payldLen1 where "payldLen1 =
     (if raw 0 AND NVEC_COMMAND_0_ERROR_FLAG_MASK \<noteq> 0 then payldLen0 - 1 else payldLen0)"
  define payldLen where "payldLen =
     (if to_u32 payldLen1 > int (EV_DATA_SZ h) then to_s32 (int (EV_DATA_SZ h)) else payldLen1)"
  have "0 \<le> uint (raw 1)" "uint (raw 1) < 256"
    using uint_lt2p[of "raw 1"] by simp_all
  then have b0: "0 \<le> payldLen0" "payldLen0 < 256"
    by (auto simp: payldLen0_def)
  then have b1: "- 1 \<le> payldLen1" "payldLen1 < 256"
    by (auto simp: payldLen1_def)
  have n: "nat (to_u32 payldLen) \<le> EV_DATA_SZ h"
  proof (cases "to_u32 payldLen1 > int (EV_DATA_SZ h)")
    case True
    then have "to_u32 payldLen = int (EV_DATA_SZ h) mod 2 ^ 32"
      by (simp add: payldLen_def to_u32_to_s32)
    also have "\<dots> \<le> int (EV_DATA_SZ h)" by (rule zmod_le_nonneg_dividend) simp
    finally show ?thesis by simp
  next
    case False
    then show ?thesis by (simp add: payldLen_def)
  qed
  have unf: "fill_event h nvec e =
      (case memcpy (ev_data (ev_pool nvec e)) (EV_DATA_SZ h) raw (NVEC_MAX_MSG_SZ h + 4)
              (if raw 0 AND NVEC_COMMAND_0_ERROR_FLAG_MASK \<noteq> 0
               then (if lenclass = NVEC_COMMAND_0_EVENT_LENGTH_FIXED_2BYTE then 1
                       else if lenclass = NVEC_COMMAND_0_EVENT_LENGTH_FIXED_3BYTE then 1
                       else if lenclass = NVEC_COMMAND_0_EVENT_LENGTH_VARIABLE then 2
                       else (1::nat)) + 1
               else (if lenclass = NVEC_COMMAND_0_EVENT_LENGTH_FIXED_2BYTE then 1
                       else if lenclass = NVEC_COMMAND_0_EVENT_LENGTH_FIXED_3BYTE then 1
                       else if lenclass = NVEC_COMMAND_0_EVENT_LENGTH_VARIABLE then 2
                       else (1::nat)))
              (nat (to_u32 payldLen)) of
         Inl t \<Rightarrow> Inl t
       | Inr d \<Rightarrow>
           Inr (nvec\<lparr>ev_pool := (ev_pool nvec)
                   (e := (ev_pool nvec e)\<lparr>ev := raw 0 AND NVEC_COMMAND_0_EVENT_TYPE_MASK,
                        ev_status := (if raw 0 AND NVEC_COMMAND_0_ERROR_FLAG_MASK \<noteq> 0
                           then raw (if lenclass = NVEC_COMMAND_0_EVENT_LENGTH_FIXED_2BYTE then 1
                       else if lenclass = NVEC_COMMAND_0_EVENT_LENGTH_FIXED_3BYTE then 1
                       else if lenclass = NVEC_COMMAND_0_EVENT_LENGTH_VARIABLE then 2
                       else (1::nat)) else NVEC_STATUS_SUCCESS h), ev_size := payldLen, ev_data := d\<rparr>),
                    ev_toprocess := ev_toprocess nvec @ [e],
                    ev_work_scheduled := True\<rparr>))"
    unfolding fill_event_def Let_def raw_def lenclass_def payldLen_def payldLen1_def payldLen0_def
    by (rule refl)
  have no_over: "fill_event h nvec e \<noteq> Inl DestOverrun"
    unfolding unf using n by (auto simp: memcpy_def split: sum.splits if_splits)
  have sz: "0 \<le> payldLen \<and> payldLen \<le> int (EV_DATA_SZ h)" if cap: "EV_DATA_SZ h < 2 ^ 31"
  proof (cases "to_u32 payldLen1 > int (EV_DATA_SZ h)")
    case True
    then show ?thesis using cap by (simp add: payldLen_def to_s32_small)
  next
    case False
    have "0 \<le> payldLen1"
    proof (rule ccontr)
      assume "\<not> 0 \<le> payldLen1"
      then have "to_u32 payldLen1 \<ge> 2 ^ 31" using b1 by (intro to_u32_neg) auto
      with False cap show False by simp
    qed
    moreover from this b1 have "to_u32 payldLen1 = payldLen1" by (intro to_u32_small) auto
    ultimately show ?thesis using False by (simp add: payldLen_def)
  qed
  have post: "0 \<le> ev_size (ev_pool s e) \<and> ev_size (ev_pool s e) \<le> int (EV_DATA_SZ h) \<and>
         (\<forall>k \<ge> nat (ev_size (ev_pool s e)). ev_data (ev_pool s e) k = ev_data (ev_pool nvec e) k)"
    if cap: "EV_DATA_SZ h < 2 ^ 31" and r: "fill_event h nvec e = Inr s" for s
  proof -
    from sz[OF cap] have "to_u32 payldLen = payldLen" using cap by (intro to_u32_small) auto
    with r sz[OF cap] show ?thesis
      unfolding unf by (auto simp: memcpy_def split: sum.splits if_splits)
  qed
  from no_over post show ?thesis by blast
qed


theorem fill_event_clamped_witness:
  "EV_DATA_SZ hdr32 < 2 ^ 31 \<and>
   fill_event hdr32 reserved_error_event 0 \<noteq> Inl DestOverrun \<and>
   (case fill_event hdr32 reserved_error_event 0 of
      Inr s \<Rightarrow> ev_size (ev_pool s 0) = 32 \<and> 0 \<le> ev_size (ev_pool s 0) \<and>
               ev_size (ev_pool s 0) \<le> int (EV_DATA_SZ hdr32)
    | Inl t \<Rightarrow> False)"
proof -
  note th = fill_event_clamped[of hdr32 reserved_error_event 0]
  have cap: "EV_DATA_SZ hdr32 < 2 ^ 31" by (simp add: hdr32_def)
  have ev: "(case fill_event hdr32 reserved_error_event 0 of
      Inr s \<Rightarrow> ev_size (ev_pool s 0) = 32 | Inl t \<Rightarrow> False)"
    by code_simp
  then obtain s where s: "fill_event hdr32 reserved_error_event 0 = Inr s" "ev_size (ev_pool s 0) = 32"
    by (auto split: sum.splits)
  with th cap have "0 \<le> ev_size (ev_pool s 0) \<and> ev_size (ev_pool s 0) \<le> int (EV_DATA_SZ hdr32)"
    by blast
  with s cap th show ?thesis by simp
qed

text \<open>
  The block write \<open>D6 04 07 AA BB CC\<close>, run through the state machine from the initial
  chip: the event record has type 6, status 7 and the three payload bytes \<open>AA BB CC\<close>,
  not the two bytes \<open>BB CC\<close>.
\<close>

theorem error_event_counterexample:
  "(case i2c_run hdr32 error_event_bus (nvec_init 0x8A) of
      Inr (outs, s) \<Rightarrow>
        ev (ev_pool s 0) = 0x06 \<and> ev_status (ev_pool s 0) = 0x07 \<and>
        ev_payload (ev_pool s 0) = [0xAA, 0xBB, 0xCC] \<and>
        ev_payload (ev_pool s 0) \<noteq> [0xBB, 0xCC]
    | Inl t \<Rightarrow> False)"
  by code_simp

lemma upt_0_3: "[0..<3] = [0, 1, 2::nat]"
  by code_simp

lemma upt_0_6: "[0..<6] = [0, 1, 2, 3, 4, 5::nat]"
  by code_simp

text \<open>
  Claim C3, amended.  For a completed block write whose raw bytes are
  \<open>D6 04 07 AA BB CC\<close> (variable-length event, error flag set) and a free slot in the
  event pool, the dispatcher builds an event record with type \<open>0x06\<close>, status \<open>0x07\<close>
  and payload exactly \<open>AA BB CC\<close>: the first of the four bytes counted by the size field
  is consumed as the status and the length is reduced from 4 to 3.
\<close>

theorem block_write_end_error_event:
  assumes "2 \<le> NVEC_MAX_MSG_SZ h" and "3 \<le> EV_DATA_SZ h"
    and "map (rx_raw (cmd_scratch nvec)) [0..<6] = [0xD6, 0x04, 0x07, 0xAA, 0xBB, 0xCC]"
    and "nvec_alloc_ev_msg nvec = Some (e, nvec1)"
  shows "\<exists>s. block_write_end h nvec = Inr s \<and>
             ev (ev_pool s e) = 0x06 \<and> ev_status (ev_pool s e) = 0x07 \<and>
             ev_payload (ev_pool s e) = [0xAA, 0xBB, 0xCC] \<and>
             ev_toprocess s = ev_toprocess nvec @ [e] \<and> smbus_state s = 0"
proof -
  let ?raw = "rx_raw (cmd_scratch nvec)"
  from assms(3) have raw: "?raw 0 = 0xD6" "?raw 1 = 0x04" "?raw 2 = 0x07" "?raw 3 = 0xAA"
    "?raw 4 = 0xBB" "?raw 5 = 0xCC"
    unfolding upt_0_6 by simp_all
  from assms(4) have n1: "cmd_scratch nvec1 = cmd_scratch nvec" "ev_toprocess nvec1 = ev_toprocess nvec"
    by (auto simp: nvec_alloc_ev_msg_def split: option.splits)
  have f: "\<exists>s. fill_event h nvec1 e = Inr s \<and>
             ev (ev_pool s e) = 0x06 \<and> ev_status (ev_pool s e) = 0x07 \<and>
             ev_size (ev_pool s e) = 3 \<and> ev_data (ev_pool s e) 0 = 0xAA \<and>
             ev_data (ev_pool s e) 1 = 0xBB \<and> ev_data (ev_pool s e) 2 = 0xCC \<and>
             ev_toprocess s = ev_toprocess nvec @ [e]"
    using assms(1,2) raw n1
    by (simp add: fill_event_def Let_def memcpy_def to_u32_def
        NVEC_COMMAND_0_EVENT_LENGTH_MASK_def NVEC_COMMAND_0_EVENT_LENGTH_FIXED_2BYTE_def
        NVEC_COMMAND_0_EVENT_LENGTH_FIXED_3BYTE_def NVEC_COMMAND_0_EVENT_LENGTH_VARIABLE_def
        NVEC_COMMAND_0_ERROR_FLAG_MASK_def NVEC_COMMAND_0_EVENT_TYPE_MASK_def)
  then obtain s where s: "fill_event h nvec1 e = Inr s"
             "ev (ev_pool s e) = 0x06" "ev_status (ev_pool s e) = 0x07"
             "ev_size (ev_pool s e) = 3" "ev_data (ev_pool s e) 0 = 0xAA"
             "ev_data (ev_pool s e) 1 = 0xBB" "ev_data (ev_pool s e) 2 = 0xCC"
             "ev_toprocess s = ev_toprocess nvec @ [e]" by blast
  have "block_write_end h nvec = Inr (s\<lparr>smbus_state := 0\<rparr>)"
    using raw(1) assms(4) s(1)
    by (simp add: block_write_end_def NVEC_COMMAND_0_PACKET_TYPE_MASK_def
        NVEC_COMMAND_0_PACKET_TYPE_EVENT_def)
  moreover have "ev_payload (ev_pool s e) = [0xAA, 0xBB, 0xCC]"
    using s by (simp add: ev_payload_def upt_0_3)
  ultimately show ?thesis using s by simp
qed

theorem block_write_end_error_event_witness:
  "2 \<le> NVEC_MAX_MSG_SZ hdr32 \<and> 3 \<le> EV_DATA_SZ hdr32 \<and>
   map (rx_raw (cmd_scratch error_event_received)) [0..<6] = [0xD6, 0x04, 0x07, 0xAA, 0xBB, 0xCC] \<and>
   map_option fst (nvec_alloc_ev_msg error_event_received) = Some 0 \<and>
   (\<exists>s. block_write_end hdr32 error_event_received = Inr s \<and>
        ev (ev_pool s 0) = 0x06 \<and> ev_status (ev_pool s 0) = 0x07 \<and>
        ev_payload (ev_pool s 0) = [0xAA, 0xBB, 0xCC] \<and>
        ev_toprocess s = ev_toprocess error_event_received @ [0] \<and> smbus_state s = 0)"
proof -
  have h1: "2 \<le> NVEC_MAX_MSG_SZ hdr32" and h2: "3 \<le> EV_DATA_SZ hdr32"
    by (simp_all add: hdr32_def)
  have h3: "map (rx_raw (cmd_scratch error_event_received)) [0..<6] = [0xD6, 0x04, 0x07, 0xAA, 0xBB, 0xCC]"
    by code_simp
  have a: "map_option fst (nvec_alloc_ev_msg error_event_received) = Some 0"
    by code_simp
  then obtain n1 where h4: "nvec_alloc_ev_msg error_event_received = Some (0, n1)"
    by auto
  from block_write_end_error_event[OF h1 h2 h3 h4] h1 h2 h3 a show ?thesis by blast
qed

subsection \<open>Timeout of a request\<close>

declare wait_loop.simps [simp del]

lemma wait_loop_unsignalled:
  "unsignalled env m k n nvec \<Longrightarrow>
     \<exists>nvec' msg'. wait_loop env m k (Suc n) r nvec =
         Inr (if n = 0 then r else False, concat (replicate n pulse), nvec') \<and>
       msgs nvec' m = Some msg'"
proof (induction n arbitrary: k r nvec)
  case 0
  then show ?case by (subst wait_loop.simps) auto
next
  case (Suc n)
  from Suc.prems obtain n1 m1 n2 where
    w: "env (Waiting k) nvec = Inr n1" "msgs n1 m = Some m1" "\<not> msg_done m1"
       "env (Delaying k) (gpio_set_value 1 n1) = Inr n2"
       "unsignalled env m (Suc k) n (gpio_set_value 0 n2)"
    by (auto split: sum.splits option.splits)
  from Suc.IH[OF w(5), of False] obtain n3 m3 where
    r: "wait_loop env m (Suc k) (Suc n) False (gpio_set_value 0 n2) =
          Inr (if n = 0 then False else False, concat (replicate n pulse), n3)"
       "msgs n3 m = Some m3" by blast
  have "wait_loop env m k (Suc (Suc n)) r nvec = Inr (False, pulse @ concat (replicate n pulse), n3)"
    by (subst wait_loop.simps) (simp add: w r pulse_def NVEC_TIMEOUT_def)
  with r show ?case by simp
qed

lemma msg_timeout_ret:
  "msgs nvec m = Some msg \<Longrightarrow> \<exists>nvec'. msg_timeout nvec m = Inr (- ETIMEDOUT, nvec')"
  by (simp add: msg_timeout_def Let_def)

lemma nine_rounds:
  "length (filter (\<lambda>a. a = WaitCompletion NVEC_TIMEOUT) (concat (replicate 9 pulse))) = 9"
  "length (filter (\<lambda>a. a = GpioSet 1) (concat (replicate 9 pulse))) = 9"
  "sum_list (map wait_ms (concat (replicate 9 pulse))) = 180"
  "sum_list (map delay_ms (concat (replicate 9 pulse))) = 90"
  by (simp_all add: pulse_def NVEC_TIMEOUT_def numeral_eq_Suc)

text \<open>
  Claim C6.  For a queued request whose completion is not signalled in any of the rounds
  of the wait loop, \<^verbatim>\<open>nvec_msg_xfer\<close> returns \<^verbatim>\<open>-ETIMEDOUT\<close> after nine rounds, which is
  within the bound of ten: each round is a wait of \<^verbatim>\<open>NVEC_TIMEOUT\<close> = 20 ms that is
  followed, being unsuccessful, by a pulse of the attention line (high, 10 ms, low).  The
  variable \<^verbatim>\<open>tries\<close> starts at 10 and is decremented before it is tested, hence nine
  rounds.  The waits add up to 180 ms, within the 200 ms of ten waits; the pulses add
  90 ms of busy delay.
\<close>

theorem nvec_msg_xfer_timeout:
  assumes "msg_enqueue nvec m = Inr nvec1" and "unsignalled env m 0 9 nvec1"
  shows "\<exists>nvec'. nvec_msg_xfer env nvec m = Inr (- ETIMEDOUT, concat (replicate 9 pulse), nvec') \<and>
           length (filter (\<lambda>a. a = WaitCompletion NVEC_TIMEOUT) (concat (replicate 9 pulse))) = 9 \<and>
           length (filter (\<lambda>a. a = WaitCompletion NVEC_TIMEOUT) (concat (replicate 9 pulse))) \<le> 10 \<and>
           length (filter (\<lambda>a. a = GpioSet 1) (concat (replicate 9 pulse))) = 9 \<and>
           sum_list (map wait_ms (concat (replicate 9 pulse))) = 180 \<and>
           sum_list (map wait_ms (concat (replicate 9 pulse))) \<le> 200 \<and>
           sum_list (map delay_ms (concat (replicate 9 pulse))) = 90"
proof -
  from wait_loop_unsignalled[OF assms(2), of False] obtain nvec2 msg2 where
    w: "wait_loop env m 0 10 False nvec1 = Inr (False, concat (replicate 9 pulse), nvec2)"
       "msgs nvec2 m = Some msg2" by auto
  from msg_timeout_ret[OF w(2)] obtain nvec3 where
    t: "msg_timeout nvec2 m = Inr (- ETIMEDOUT, nvec3)" by blast
  have "nvec_msg_xfer env nvec m = Inr (- ETIMEDOUT, concat (replicate 9 pulse), nvec3)"
    by (simp add: nvec_msg_xfer_def assms(1) w t)
  then show ?thesis by (simp add: nine_rounds)
qed

lemma enqueued_silent:
  "(case msg_enqueue fw_request 7 of Inr s \<Rightarrow> unsignalled silent 7 0 9 s | Inl t \<Rightarrow> False)"
  by code_simp

lemma enqueued_read_then_silent:
  "(case msg_enqueue fw_request 7 of Inr s \<Rightarrow> unsignalled read_then_silent 7 0 9 s | Inl t \<Rightarrow> False)"
  by code_simp

theorem nvec_msg_xfer_timeout_witness:
  "(\<exists>nvec1. msg_enqueue fw_request 7 = Inr nvec1 \<and> unsignalled silent 7 0 9 nvec1 \<and>
             unsignalled read_then_silent 7 0 9 nvec1) \<and>
   (\<exists>nvec'. nvec_msg_xfer silent fw_request 7 = Inr (- ETIMEDOUT, concat (replicate 9 pulse), nvec')) \<and>
   (\<exists>nvec'. nvec_msg_xfer read_then_silent fw_request 7 =
              Inr (- ETIMEDOUT, concat (replicate 9 pulse), nvec'))"
proof -
  from enqueued_silent obtain nvec1 where
    e: "msg_enqueue fw_request 7 = Inr nvec1" and s: "unsignalled silent 7 0 9 nvec1"
    by (auto split: sum.splits)
  from enqueued_read_then_silent e have r: "unsignalled read_then_silent 7 0 9 nvec1"
    by simp
  from nvec_msg_xfer_timeout[OF e s] nvec_msg_xfer_timeout[OF e r] e s r
  show ?thesis by blast
qed

text \<open>
  Claim C1.  The failure path looks for the message on the awaiting-response list, not on
  the to-send list.  For a request that times out while it is still on the to-send list
  (the EC never polled) the message is unlinked, the tag is released and
  \<^verbatim>\<open>-ETIMEDOUT\<close> is returned, but the depth counter is not decremented and the attention
  line is not updated: the counter stays 1 and the line stays asserted.  For a request
  that times out after the EC has read it, so that it is on the awaiting-response list,
  the counter is decremented from 0 to -1 and the attention line is asserted.
\<close>

theorem msg_timeout_on_tosend:
  "(case msg_enqueue fw_request 7 of
      Inr s \<Rightarrow>
        cmd_tosend s = [Msg 7] \<and> cmd_torcv s = [] \<and> cmd_tosendcount s = 1 \<and> gpio_value s = 0 \<and>
        (case msg_timeout s 7 of
           Inr (ret, s') \<Rightarrow>
             ret = - ETIMEDOUT \<and> cmd_tosend s' = [] \<and> cmd_torcv s' = [] \<and> cmd_tagmap s' 4 = 0 \<and>
             cmd_tosendcount s' = 1 \<and> gpio_value s' = 0
         | Inl t \<Rightarrow> False) \<and>
        (case i2c_run hdr32 read_bus s of
           Inr (outs, s1) \<Rightarrow>
             cmd_tosend s1 = [] \<and> cmd_torcv s1 = [Msg 7] \<and> cmd_tosendcount s1 = 0 \<and>
             gpio_value s1 = 1 \<and>
             (case msg_timeout s1 7 of
                Inr (ret, s') \<Rightarrow>
                  ret = - ETIMEDOUT \<and> cmd_tosend s' = [] \<and> cmd_torcv s' = [] \<and>
                  cmd_tagmap s' 4 = 0 \<and> cmd_tosendcount s' = - 1 \<and> gpio_value s' = 0
              | Inl t \<Rightarrow> False)
         | Inl t \<Rightarrow> False)
    | Inl t \<Rightarrow> False)"
  by code_simp

text \<open>
  Claim C2.  One request submitted through \<^verbatim>\<open>nvec_cmd_xfer\<close> while the EC never polls:
  after the enqueue and the timeout cleanup the to-send list is empty and the depth
  counter is 1.
\<close>

theorem tosendcount_after_timeout:
  "(case nvec_cmd_xfer hdr32 silent (nvec_init 0x8A) 7 0x04 0x10 None 0 None 0 of
      Inr (ret, buf, acts, s) \<Rightarrow>
        ret = - ETIMEDOUT \<and> cmd_tosend s = [] \<and> cmd_tosendcount s = 1 \<and>
        cmd_tosendcount s \<noteq> int (length (cmd_tosend s))
    | Inl t \<Rightarrow> False)"
  by code_simp

subsection \<open>The state machine: block read\<close>

lemmas status_defs = I2C_SL_IRQ_def RCVD_def RNW_def END_TRANS_def

lemma irq_idle_addr:
  "smbus_state nvec = 0 \<Longrightarrow>
   i2c_interrupt h (I2C_SL_IRQ OR RCVD, i2c_addr nvec) nvec = Inr (None, nvec\<lparr>smbus_state := 1\<rparr>)"
  by (simp add: i2c_interrupt_def smbus_step_def Let_def status_defs)

lemma irq_cmd:
  "smbus_state nvec = 1 \<Longrightarrow>
   i2c_interrupt h (I2C_SL_IRQ, c) nvec =
     Inr (None, nvec\<lparr>cmd_scratch := (cmd_scratch nvec)\<lparr>rx_raw := (rx_raw (cmd_scratch nvec))(0 := ucast c)\<rparr>,
                     smbus_state := 2\<rparr>)"
  by (simp add: i2c_interrupt_def smbus_step_def Let_def status_defs)

lemma irq_block_read_start:
  "smbus_state nvec = 2 \<Longrightarrow>
   i2c_interrupt h (I2C_SL_IRQ OR RNW OR RCVD, x) nvec =
     (case block_read_start h nvec of Inl t \<Rightarrow> Inl t | Inr (b, s) \<Rightarrow> Inr (Some b, s))"
  by (simp add: i2c_interrupt_def smbus_step_def Let_def status_defs split: sum.splits)

lemma irq_block_read_next:
  "smbus_state nvec = 3 \<Longrightarrow>
   i2c_interrupt h (I2C_SL_IRQ OR RNW, x) nvec =
     (case send_next_byte h nvec of Inl t \<Rightarrow> Inl t | Inr (b, s) \<Rightarrow> Inr (Some b, s))"
  by (simp add: i2c_interrupt_def smbus_step_def Let_def status_defs split: sum.splits)

lemma irq_block_read_end:
  "smbus_state nvec = 3 \<Longrightarrow>
   i2c_interrupt h (I2C_SL_IRQ OR RNW OR END_TRANS, x) nvec =
     (case block_read_end nvec of Inl t \<Rightarrow> Inl t | Inr s \<Rightarrow> Inr (None, s))"
  by (simp add: i2c_interrupt_def smbus_step_def Let_def status_defs split: sum.splits)

lemma deref_upd [simp]:
  "deref (nvec\<lparr>smbus_state := a\<rparr>) r = deref nvec r"
  "deref (nvec\<lparr>tx_pos := b\<rparr>) r = deref nvec r"
  "deref (nvec\<lparr>gpio_value := c\<rparr>) r = deref nvec r"
  "deref (nvec\<lparr>tx := d\<rparr>) r = deref nvec r"
  by (simp_all add: deref_def split: msgref.splits)

lemma deref_rx_upd:
  "deref nvec r = Inr m \<Longrightarrow>
   \<exists>m'. deref (nvec\<lparr>cmd_scratch := (cmd_scratch nvec)\<lparr>rx_raw := f\<rparr>\<rparr>) r = Inr m' \<and> tx_raw m' = tx_raw m"
  by (cases r) (auto simp: deref_def split: option.splits)

text \<open>
  Claim C5, amended.  When the master turns the bus around for a block read and a
  message is already current, the state machine keeps that message and leaves the
  position as it is (\<open>pick_tx_msg\<close> changes nothing).  The rewind is done by the premature
  stop in state 3: after a block read that ends with \<^verbatim>\<open>END_TRANS\<close> before the last byte,
  the position is 0, and the next block read sends the same message from its first byte.
\<close>

theorem premature_stop_retransmits:
  assumes "smbus_state nvec = 3" and "tx nvec = Some r" and "deref nvec r = Inr m"
    and "tx_pos nvec < tx_size nvec" and "0 < tx_size nvec"
  shows "pick_tx_msg h nvec = Inr nvec \<and>
         (\<exists>s. i2c_run h [(I2C_SL_IRQ OR RNW OR END_TRANS, x), (I2C_SL_IRQ OR RCVD, i2c_addr nvec),
                         (I2C_SL_IRQ, 0x01), (I2C_SL_IRQ OR RNW OR RCVD, y)] nvec =
                 Inr ([None, None, None, Some (tx_raw m 0)], s) \<and>
              tx s = Some r \<and> tx_pos s = 1 \<and> smbus_state s = 3 \<and>
              cmd_tosend s = cmd_tosend nvec \<and> cmd_torcv s = cmd_torcv nvec)"
proof -
  have p: "pick_tx_msg h nvec = Inr nvec" using assms(2) by (simp add: pick_tx_msg_def)
  define s1 where "s1 = (gpio_set_value 0 (nvec\<lparr>tx_pos := 0\<rparr>))\<lparr>smbus_state := 0\<rparr>"
  have e1: "i2c_interrupt h (I2C_SL_IRQ OR RNW OR END_TRANS, x) nvec = Inr (None, s1)"
    using assms by (simp add: irq_block_read_end block_read_end_def s1_def)
  have s1: "smbus_state s1 = 0" "i2c_addr s1 = i2c_addr nvec" "tx s1 = Some r" "tx_pos s1 = 0"
    "tx_size s1 = tx_size nvec" "deref s1 r = Inr m" "cmd_tosend s1 = cmd_tosend nvec"
    "cmd_torcv s1 = cmd_torcv nvec"
    using assms by (simp_all add: s1_def gpio_set_value_def)
  define s2 where "s2 = s1\<lparr>smbus_state := 1\<rparr>"
  have e2: "i2c_interrupt h (I2C_SL_IRQ OR RCVD, i2c_addr nvec) s1 = Inr (None, s2)"
    using irq_idle_addr[OF s1(1), of h] s1(2) by (simp add: s2_def)
  have s2: "smbus_state s2 = 1" "tx s2 = Some r" "tx_pos s2 = 0"
    "tx_size s2 = tx_size nvec" "deref s2 r = Inr m" "cmd_tosend s2 = cmd_tosend nvec"
    "cmd_torcv s2 = cmd_torcv nvec"
    using s1 by (simp_all add: s2_def)
  define s3 where "s3 = s2\<lparr>cmd_scratch := (cmd_scratch s2)\<lparr>rx_raw := (rx_raw (cmd_scratch s2))(0 := ucast (0x01::u32))\<rparr>,
                     smbus_state := 2\<rparr>"
  have e3: "i2c_interrupt h (I2C_SL_IRQ, 0x01) s2 = Inr (None, s3)"
    using irq_cmd[OF s2(1), of h "0x01"] by (simp add: s3_def)
  from deref_rx_upd[OF s2(5), of "(rx_raw (cmd_scratch s2))(0 := ucast (0x01::u32))"]
  obtain m' where m': "deref (s2\<lparr>cmd_scratch := (cmd_scratch s2)\<lparr>rx_raw := (rx_raw (cmd_scratch s2))(0 := ucast (0x01::u32))\<rparr>\<rparr>) r = Inr m'"
    "tx_raw m' = tx_raw m" by blast
  have s3: "smbus_state s3 = 2" "tx s3 = Some r" "tx_pos s3 = 0"
    "tx_size s3 = tx_size nvec" "deref s3 r = Inr m'" "cmd_tosend s3 = cmd_tosend nvec"
    "cmd_torcv s3 = cmd_torcv nvec" "rx_cmd_f (cmd_scratch s3) = 0x01"
    using s2 m' by (simp_all add: s3_def deref_def split: msgref.splits)
  define s4 where "s4 = gpio_set_value 1 (s3\<lparr>smbus_state := 3, tx_pos := 1\<rparr>)"
  have e4: "i2c_interrupt h (I2C_SL_IRQ OR RNW OR RCVD, y) s3 = Inr (Some (tx_raw m 0), s4)"
    using s3 assms(5) m'(2)
    by (simp add: irq_block_read_start block_read_start_def pick_tx_msg_def send_next_byte_def s4_def)
  have s4: "tx s4 = Some r" "tx_pos s4 = 1" "smbus_state s4 = 3"
    "cmd_tosend s4 = cmd_tosend nvec" "cmd_torcv s4 = cmd_torcv nvec"
    using s3 by (simp_all add: s4_def gpio_set_value_def)
  have "i2c_run h [(I2C_SL_IRQ OR RNW OR END_TRANS, x), (I2C_SL_IRQ OR RCVD, i2c_addr nvec),
                         (I2C_SL_IRQ, 0x01), (I2C_SL_IRQ OR RNW OR RCVD, y)] nvec =
                 Inr ([None, None, None, Some (tx_raw m 0)], s4)"
    by (simp add: e1 e2 e3 e4)
  with p s4 show ?thesis by blast
qed


theorem premature_stop_retransmits_witness:
  "smbus_state mid_read = 3 \<and> tx mid_read = Some (Msg 7) \<and>
   deref mid_read (Msg 7) = Inr (zero_cmd\<lparr>tx_raw := raw_of [2, 0x04, 0x10]\<rparr>) \<and>
   tx_pos mid_read < tx_size mid_read \<and> 0 < tx_size mid_read \<and>
   pick_tx_msg hdr32 mid_read = Inr mid_read \<and>
   (\<exists>s. i2c_run hdr32 [(I2C_SL_IRQ OR RNW OR END_TRANS, 0), (I2C_SL_IRQ OR RCVD, 0x8A),
                        (I2C_SL_IRQ, 0x01), (I2C_SL_IRQ OR RNW OR RCVD, 0)] mid_read =
              Inr ([None, None, None, Some 0x02], s) \<and> tx s = Some (Msg 7) \<and> tx_pos s = 1)"
proof -
  have a: "smbus_state mid_read = 3" and b: "tx mid_read = Some (Msg 7)"
    and c: "deref mid_read (Msg 7) = Inr (zero_cmd\<lparr>tx_raw := raw_of [2, 0x04, 0x10]\<rparr>)"
    and d: "tx_pos mid_read < tx_size mid_read" and e: "0 < tx_size mid_read"
    and f: "i2c_addr mid_read = 0x8A"
    by (simp_all add: mid_read_def nvec_init_def deref_def)
  have g: "tx_raw (zero_cmd\<lparr>tx_raw := raw_of [2, 0x04, 0x10]\<rparr>) 0 = 0x02"
    by (simp add: raw_of_def)
  from premature_stop_retransmits[OF a b c d e, of hdr32 0 0] a b c d e
  show ?thesis unfolding f g by blast
qed

text \<open>
  A block read abandoned by a new start condition instead of a stop leaves the position
  where it was: the next block read continues with the third byte of the request.
\<close>

theorem aborted_read_counterexample:
  "(case msg_enqueue fw_request 7 of
      Inr s0 \<Rightarrow>
        (case i2c_run hdr32 aborted_read_bus s0 of
           Inr (outs, s) \<Rightarrow>
             outs = [None, None, Some 0x02, Some 0x04, None, None, None, Some 0x10] \<and>
             tx s = Some (Msg 7) \<and> tx_pos s = 3 \<and> last outs \<noteq> Some 0x02
         | Inl t \<Rightarrow> False)
    | Inl t \<Rightarrow> False)"
  by code_simp

subsection \<open>The state machine: the no-op packet\<close>

lemma list_del_init_torcv: "set (cmd_torcv (list_del_init r nvec)) \<subseteq> set (cmd_torcv nvec)"
  using set_remove1_subset[of r "cmd_torcv nvec"] by (simp add: list_del_init_def)

lemma send_next_byte_torcv: "send_next_byte h nvec = Inr (b, s) \<Longrightarrow> cmd_torcv s = cmd_torcv nvec"
  by (auto simp: send_next_byte_def split: option.splits if_splits sum.splits)

lemma pick_tx_msg_torcv: "pick_tx_msg h nvec = Inr s \<Longrightarrow> cmd_torcv s = cmd_torcv nvec"
  by (auto simp: pick_tx_msg_def Let_def split: option.splits if_splits sum.splits list.splits)

lemma block_read_start_torcv: "block_read_start h nvec = Inr (b, s) \<Longrightarrow> cmd_torcv s = cmd_torcv nvec"
  by (auto simp: block_read_start_def gpio_set_value_def split: if_splits sum.splits
      dest!: pick_tx_msg_torcv send_next_byte_torcv)

lemma block_read_end_torcv:
  "block_read_end nvec = Inr s \<Longrightarrow> Scratch \<notin> set (cmd_torcv nvec) \<Longrightarrow> Scratch \<notin> set (cmd_torcv s)"
  by (auto simp: block_read_end_def Let_def gpio_set_value_def
      split: option.splits if_splits sum.splits dest: subsetD[OF list_del_init_torcv])

lemma store_received_torcv: "store_received h c nvec = Inr s \<Longrightarrow> cmd_torcv s = cmd_torcv nvec"
  by (auto simp: store_received_def Let_def split: if_splits)

lemma update_msg_torcv: "cmd_torcv (update_msg r f nvec) = cmd_torcv nvec"
  by (simp add: update_msg_def split: msgref.splits)

lemma nvec_free_tag_torcv: "cmd_torcv (nvec_free_tag nvec t) = cmd_torcv nvec"
  by (simp add: nvec_free_tag_def Let_def)

lemma deliver_response_torcv:
  "deliver_response h nvec = Inr s \<Longrightarrow> set (cmd_torcv s) \<subseteq> set (cmd_torcv nvec)"
  by (auto simp: deliver_response_def Let_def complete_def update_msg_torcv nvec_free_tag_torcv
      split: sum.splits option.splits dest: subsetD[OF list_del_init_torcv])

lemma fill_event_torcv: "fill_event h nvec e = Inr s \<Longrightarrow> cmd_torcv s = cmd_torcv nvec"
  by (auto simp: fill_event_def Let_def split: sum.splits)

lemma nvec_alloc_ev_msg_torcv: "nvec_alloc_ev_msg nvec = Some (e, s) \<Longrightarrow> cmd_torcv s = cmd_torcv nvec"
  by (auto simp: nvec_alloc_ev_msg_def split: option.splits)

lemma block_write_end_torcv:
  "block_write_end h nvec = Inr s \<Longrightarrow> set (cmd_torcv s) \<subseteq> set (cmd_torcv nvec)"
  by (auto simp: block_write_end_def split: if_splits option.splits sum.splits
      dest!: fill_event_torcv nvec_alloc_ev_msg_torcv deliver_response_torcv)

lemma smbus_step_torcv:
  assumes "smbus_step h st c nvec = Inr (b, s)" "Scratch \<notin> set (cmd_torcv nvec)"
  shows "Scratch \<notin> set (cmd_torcv s)"
proof -
  consider "smbus_state nvec = 0" | "smbus_state nvec = 1" | "smbus_state nvec = 2"
    | "smbus_state nvec = 3" | "smbus_state nvec = 4"
    | "smbus_state nvec \<notin> {0, 1, 2, 3, 4}" by auto
  then show ?thesis
  proof cases
    case 1 with assms show ?thesis by (auto simp: smbus_step_def split: if_splits)
  next
    case 2 with assms show ?thesis by (auto simp: smbus_step_def Let_def split: if_splits)
  next
    case 3 with assms show ?thesis
      by (auto simp: smbus_step_def Let_def split: if_splits dest!: block_read_start_torcv)
  next
    case 4 with assms show ?thesis
      by (auto simp: smbus_step_def Let_def split: if_splits sum.splits
          dest!: send_next_byte_torcv dest: block_read_end_torcv)
  next
    case 5 with assms show ?thesis
      by (auto simp: smbus_step_def Let_def split: if_splits sum.splits
          dest!: store_received_torcv block_write_end_torcv)
  next
    case 6 with assms show ?thesis by (auto simp: smbus_step_def)
  qed
qed

lemma i2c_interrupt_torcv:
  assumes "i2c_interrupt h sr nvec = Inr (out, s)" "Scratch \<notin> set (cmd_torcv nvec)"
  shows "Scratch \<notin> set (cmd_torcv s)"
  using assms
  by (auto simp: i2c_interrupt_def Let_def split: if_splits sum.splits dest: smbus_step_torcv)


text \<open>
  In a chip whose to-send list is empty, whose depth counter is zero and which has no
  current message, a block read makes the state machine write the no-op control packet
  (size 2, command control, sub-command no-operation) into the scratch message and
  transmit its three bytes; when the transmission completes the current message is
  cleared and both lists are unchanged.  No interrupt ever links the scratch message onto
  the awaiting-response list.
\<close>

lemma noop_on_empty_queue:
  assumes "smbus_state nvec = 0" and "tx nvec = None" and "cmd_tosend nvec = []"
    and "cmd_tosendcount nvec = 0"
  shows "(\<exists>s. i2c_run h [(I2C_SL_IRQ OR RCVD, i2c_addr nvec), (I2C_SL_IRQ, 0x01),
                          (I2C_SL_IRQ OR RNW OR RCVD, x)] nvec = Inr ([None, None, Some 0x02], s) \<and>
               tx s = Some Scratch \<and> tx_pos s = 1 \<and> tx_size s = 3 \<and>
               tx_size_f (cmd_scratch s) = 0x02 \<and>
               tx_cmd_f (cmd_scratch s) = NVEC_CMD_CONTROL h \<and>
               tx_subcmd_f (cmd_scratch s) = NVEC_CMD_CONTROL_NOOPERATION h) \<and>
         (\<exists>s. i2c_run h [(I2C_SL_IRQ OR RCVD, i2c_addr nvec), (I2C_SL_IRQ, 0x01),
                          (I2C_SL_IRQ OR RNW OR RCVD, x), (I2C_SL_IRQ OR RNW, y),
                          (I2C_SL_IRQ OR RNW, z), (I2C_SL_IRQ OR RNW OR END_TRANS, w)] nvec =
                 Inr ([None, None, Some 0x02, Some (NVEC_CMD_CONTROL h),
                       Some (NVEC_CMD_CONTROL_NOOPERATION h), None], s) \<and>
               tx s = None \<and> smbus_state s = 0 \<and> cmd_torcv s = cmd_torcv nvec \<and>
               cmd_tosend s = [] \<and> cmd_tosendcount s = 0) \<and>
         (\<forall>sr nvec' out s'. Scratch \<notin> set (cmd_torcv nvec') \<longrightarrow>
               i2c_interrupt h sr nvec' = Inr (out, s') \<longrightarrow> Scratch \<notin> set (cmd_torcv s'))"
proof (intro conjI)
  show "\<exists>s. i2c_run h [(I2C_SL_IRQ OR RCVD, i2c_addr nvec), (I2C_SL_IRQ, 0x01),
                          (I2C_SL_IRQ OR RNW OR RCVD, x)] nvec = Inr ([None, None, Some 0x02], s) \<and>
               tx s = Some Scratch \<and> tx_pos s = 1 \<and> tx_size s = 3 \<and>
               tx_size_f (cmd_scratch s) = 0x02 \<and>
               tx_cmd_f (cmd_scratch s) = NVEC_CMD_CONTROL h \<and>
               tx_subcmd_f (cmd_scratch s) = NVEC_CMD_CONTROL_NOOPERATION h"
    using assms
    by (simp add: irq_idle_addr irq_cmd irq_block_read_start block_read_start_def pick_tx_msg_def
        send_next_byte_def deref_def gpio_set_value_def Let_def)
  show "\<exists>s. i2c_run h [(I2C_SL_IRQ OR RCVD, i2c_addr nvec), (I2C_SL_IRQ, 0x01),
                          (I2C_SL_IRQ OR RNW OR RCVD, x), (I2C_SL_IRQ OR RNW, y),
                          (I2C_SL_IRQ OR RNW, z), (I2C_SL_IRQ OR RNW OR END_TRANS, w)] nvec =
                 Inr ([None, None, Some 0x02, Some (NVEC_CMD_CONTROL h),
                       Some (NVEC_CMD_CONTROL_NOOPERATION h), None], s) \<and>
               tx s = None \<and> smbus_state s = 0 \<and> cmd_torcv s = cmd_torcv nvec \<and>
               cmd_tosend s = [] \<and> cmd_tosendcount s = 0"
    using assms
    by (simp add: irq_idle_addr irq_cmd irq_block_read_start irq_block_read_next irq_block_read_end
        block_read_start_def pick_tx_msg_def send_next_byte_def block_read_end_def deref_def
        gpio_set_value_def Let_def)
  show "\<forall>sr nvec' out s'. Scratch \<notin> set (cmd_torcv nvec') \<longrightarrow>
               i2c_interrupt h sr nvec' = Inr (out, s') \<longrightarrow> Scratch \<notin> set (cmd_torcv s')"
    using i2c_interrupt_torcv by blast
qed

text \<open>
  Claim C8.  State 2 decides on the depth counter, not on the list (line 591), and the
  failure path of \<^verbatim>\<open>nvec_msg_xfer\<close> leaves the counter out of step with the list.
  After a request has timed out unsent, the to-send list is empty and no message is
  current, but the counter is 1: the next block read takes \<^verbatim>\<open>list_first_entry\<close> of the
  empty list instead of the scratch no-op.  After a request has timed out on the
  awaiting-response list the counter is -1, so that with the next request queued it is
  0: the block read then sends the no-op \<open>02 04 02\<close> while that request stays queued.
\<close>

theorem poll_after_timeout:
  "(case nvec_msg_xfer silent two_callers 7 of
      Inr (ret, acts, s) \<Rightarrow>
        ret = - ETIMEDOUT \<and> cmd_tosend s = [] \<and> tx s = None \<and> smbus_state s = 0 \<and>
        cmd_tosendcount s = 1 \<and>
        (case i2c_run hdr32 poll_bus s of Inl t \<Rightarrow> t = EmptyListEntry | Inr r \<Rightarrow> False)
    | Inl t \<Rightarrow> False) \<and>
   (case nvec_msg_xfer read_then_silent two_callers 7 of
      Inr (ret, acts, s) \<Rightarrow>
        ret = - ETIMEDOUT \<and> cmd_tosend s = [] \<and> cmd_tosendcount s = - 1 \<and>
        (case msg_enqueue s 8 of
           Inr s1 \<Rightarrow>
             cmd_tosend s1 = [Msg 8] \<and> cmd_tosendcount s1 = 0 \<and> tx s1 = None \<and>
             (case i2c_run hdr32 read_bus s1 of
                Inr (outs, s2) \<Rightarrow>
                  outs = [None, None, Some 0x02, Some 0x04, Some 0x02, None] \<and>
                  cmd_tosend s2 = [Msg 8] \<and> cmd_torcv s2 = []
              | Inl t \<Rightarrow> False)
         | Inl t \<Rightarrow> False)
    | Inl t \<Rightarrow> False)"
  by code_simp


subsection \<open>The submit operation\<close>

lemma build_fw_tx: "build_tx h 0x04 0x10 None 0 = Inr fw_tx"
  by (simp add: build_tx_def fw_tx_def)

lemma nvec_cmd_xfer_answered:
  assumes "i2c_enabled nvec" and "build_tx h cmd subcmd txpayld txpayldsize = Inr tx0"
    and "nvec_msg_xfer env (nvec\<lparr>msgs := (msgs nvec)(a := Some (zero_cmd\<lparr>tx_raw := tx0\<rparr>))\<rparr>) a =
           Inr (0, acts, nvec2)"
    and "msgs nvec2 a = Some msg"
  shows "nvec_cmd_xfer h env nvec a cmd subcmd txpayld txpayldsize rxpayld rxpayloadmaxsize =
           (case copy_answer h msg rxpayld rxpayloadmaxsize of
              Inl t \<Rightarrow> Inl t
            | Inr (r, buf) \<Rightarrow> Inr (r, buf, acts, nvec2\<lparr>msgs := (msgs nvec2)(a := None)\<rparr>))"
  using assms by (simp add: nvec_cmd_xfer_def Let_def)


text \<open>
  Claim C10.  When \<^verbatim>\<open>nvec_cmd_xfer\<close> is called with a null receive buffer, the transfer
  succeeds and the status of the response is success, it returns 0, whatever the size
  field of the response says.
\<close>

theorem nvec_cmd_xfer_null_rx:
  assumes "i2c_enabled nvec" and "build_tx h cmd subcmd txpayld txpayldsize = Inr tx0"
    and "nvec_msg_xfer env (nvec\<lparr>msgs := (msgs nvec)(a := Some (zero_cmd\<lparr>tx_raw := tx0\<rparr>))\<rparr>) a =
           Inr (0, acts, nvec2)"
    and "msgs nvec2 a = Some msg" and "rx_status_f msg = NVEC_STATUS_SUCCESS h"
  shows "nvec_cmd_xfer h env nvec a cmd subcmd txpayld txpayldsize None rxpayloadmaxsize =
           Inr (0, None, acts, nvec2\<lparr>msgs := (msgs nvec2)(a := None)\<rparr>)"
  using assms(5) by (simp add: nvec_cmd_xfer_answered[OF assms(1-4)] copy_answer_def)

lemma fw_run_ok:
  "(case nvec_msg_xfer (isr_env hdr32 (fw_bus 0)) fw_chip 7 of
      Inr (r, acts, n2) \<Rightarrow>
        r = 0 \<and> (case msgs n2 7 of Some m \<Rightarrow> rx_status_f m = 0 \<and> rx_size_f m = 6 | None \<Rightarrow> False)
    | Inl t \<Rightarrow> False)"
  by code_simp

theorem nvec_cmd_xfer_null_rx_witness:
  "i2c_enabled (nvec_init 0x8A) \<and> build_tx hdr32 0x04 0x10 None 0 = Inr fw_tx \<and>
   (\<exists>acts nvec2 msg.
      nvec_msg_xfer (isr_env hdr32 (fw_bus 0)) fw_chip 7 = Inr (0, acts, nvec2) \<and>
      msgs nvec2 7 = Some msg \<and> rx_status_f msg = NVEC_STATUS_SUCCESS hdr32 \<and> rx_size_f msg = 6 \<and>
      nvec_cmd_xfer hdr32 (isr_env hdr32 (fw_bus 0)) (nvec_init 0x8A) 7 0x04 0x10 None 0 None 0 =
        Inr (0, None, acts, nvec2\<lparr>msgs := (msgs nvec2)(7 := None)\<rparr>))"
proof -
  have en: "i2c_enabled (nvec_init 0x8A)" by (simp add: nvec_init_def)
  from fw_run_ok obtain acts nvec2 msg where
    r: "nvec_msg_xfer (isr_env hdr32 (fw_bus 0)) fw_chip 7 = Inr (0, acts, nvec2)"
    and m: "msgs nvec2 7 = Some msg" and st: "rx_status_f msg = 0" and sz: "rx_size_f msg = 6"
    by (auto split: sum.splits option.splits)
  have st': "rx_status_f msg = NVEC_STATUS_SUCCESS hdr32" using st by (simp add: hdr32_def)
  from nvec_cmd_xfer_null_rx[OF en build_fw_tx r[unfolded fw_chip_def] m st', of 0]
    en build_fw_tx r m st' sz
  show ?thesis by blast
qed







end
